theory Spec2Isabelle
  imports Complex_Main
begin

section \<open>Pong: the game constants\<close>

text \<open>
  The embedding follows \<^verbatim>\<open>src/pong.ts\<close>. A JavaScript \<^verbatim>\<open>number\<close> that holds a
  coordinate, a velocity or a size is a \<^typ>\<open>real\<close> (the rounding of IEEE doubles is not
  modelled); the energy and score counters, which the program only ever builds from integer
  constants by adding and subtracting one, are \<^typ>\<open>int\<close>. The attributes \<^verbatim>\<open>id\<close> and
  \<^verbatim>\<open>colour\<close> of the bodies and the position and size of the text labels are read by the
  drawing functions only and are left out. Parameters that the source declares with a default
  value and that no call overrides are replaced by that default.
\<close>

definition winningScore :: int where "winningScore = 7"
definition topBound :: real where "topBound = 10"
definition bottomBound :: real where "bottomBound = 10"
definition sideBound :: real where "sideBound = 10"
definition paddleXWidth :: real where "paddleXWidth = 20"
definition paddleYWidth :: real where "paddleYWidth = 90"
definition ballRadius :: real where "ballRadius = 10"
definition ballBaseXSpeed :: real where "ballBaseXSpeed = 5"
definition ballBaseYSpeed :: real where "ballBaseYSpeed = 8"
definition paddleSpeed :: real where "paddleSpeed = 5"
definition cpuCheating :: real where "cpuCheating = 2"
definition startingEnergy :: int where "startingEnergy = 4"
definition paddleGrowthAbility :: real where "paddleGrowthAbility = 30"
definition paddleShrinkAbility :: real where "paddleShrinkAbility = 15"
definition canvasRight :: real where "canvasRight = 900"
definition canvasBottom :: real where "canvasBottom = 600"

section \<open>Bodies\<close>

text \<open>\<^verbatim>\<open>scoreUpdateTracker = null | "p" | "c"\<close>: \<open>None\<close> is \<^verbatim>\<open>null\<close>.\<close>

datatype side = P | C

type_synonym scoreUpdateTracker = "side option"

text \<open>
  \<^verbatim>\<open>RectBody\<close> and \<^verbatim>\<open>CircleBody\<close> share the fields \<^verbatim>\<open>xPos\<close>, \<^verbatim>\<open>yPos\<close>, \<^verbatim>\<open>xVel\<close>
  and \<^verbatim>\<open>yVel\<close>; both records extend the record of these four fields, so that the source's
  field names serve for paddles and ball alike.
\<close>

record Body =
  xPos :: real
  yPos :: real
  xVel :: real
  yVel :: real

record RectBody = Body +
  xSize :: real
  ySize :: real
  energy :: int

record CircleBody = Body +
  radius :: real
  scoreUpdate :: scoreUpdateTracker

record TextBody =
  numeric :: int
  content :: string

type_synonym paddleGenerator = "real \<Rightarrow> real \<Rightarrow> int \<Rightarrow> real \<Rightarrow> RectBody"

definition genericPaddle :: "real \<Rightarrow> real \<Rightarrow> paddleGenerator" where
  "genericPaddle xPosition width position velocity energy' length' =
     \<lparr>xPos = xPosition, yPos = position, xVel = 0, yVel = velocity,
      xSize = width, ySize = length', energy = energy'\<rparr>"

definition playerPaddle :: paddleGenerator where
  "playerPaddle = genericPaddle (sideBound + 20) paddleXWidth"

definition aiPaddle :: paddleGenerator where
  "aiPaddle = genericPaddle (canvasRight - paddleXWidth - 20 - sideBound) paddleXWidth"

text \<open>The generator \<^verbatim>\<open>ball\<close>; the name \<open>ball\<close> is kept for the field of the game state.\<close>

definition ball_mk :: "real \<Rightarrow> real \<Rightarrow> real \<Rightarrow> real \<Rightarrow> scoreUpdateTracker \<Rightarrow> CircleBody" where
  "ball_mk xp yp xv yv score =
     \<lparr>xPos = xp, yPos = yp, xVel = xv, yVel = yv, radius = ballRadius, scoreUpdate = score\<rparr>"

subsection \<open>Text labels: \<^verbatim>\<open>num.toString()\<close> and \<^verbatim>\<open>parseInt\<close>\<close>

definition digitChar :: "nat \<Rightarrow> char" where
  "digitChar d = ''0123456789'' ! d"

fun decimal :: "nat \<Rightarrow> string" where
  "decimal n = (if n < 10 then [digitChar n] else decimal (n div 10) @ [digitChar (n mod 10)])"

declare decimal.simps [simp del]

text \<open>\<^verbatim>\<open>toString\<close> of an integral number: its decimal digits, after a minus sign when negative.\<close>

definition toString :: "int \<Rightarrow> string" where
  "toString n = (if n < 0 then CHR ''-'' # decimal (nat (- n)) else decimal (nat n))"

text \<open>The value of a decimal digit is its place in the row of digits.\<close>

fun placeOf :: "char \<Rightarrow> string \<Rightarrow> nat option" where
  "placeOf c [] = None"
| "placeOf c (d # ds) = (if c = d then Some 0 else map_option Suc (placeOf c ds))"

definition digitVal :: "char \<Rightarrow> nat option" where
  "digitVal c = placeOf c ''0123456789''"

definition isDigit :: "char \<Rightarrow> bool" where
  "isDigit c = (digitVal c \<noteq> None)"

definition digitsValue :: "string \<Rightarrow> nat" where
  "digitsValue ds = foldl (\<lambda>a c. 10 * a + the (digitVal c)) 0 ds"

text \<open>
  \<^verbatim>\<open>parseInt\<close> in radix ten: leading blanks are skipped, one sign is read, then the longest
  run of digits; \<open>None\<close> is \<^verbatim>\<open>NaN\<close> (no digit where one is expected). The hexadecimal prefix
  \<^verbatim>\<open>0x\<close> is not modelled: no label of the game contains it.
\<close>

definition parseInt :: "string \<Rightarrow> int option" where
  "parseInt s =
     (let t = dropWhile (\<lambda>c. c = CHR '' '') s;
          neg = (case t of c # _ \<Rightarrow> c = CHR ''-'' | [] \<Rightarrow> False);
          u = (case t of c # r \<Rightarrow> if c = CHR ''-'' \<or> c = CHR ''+'' then r else t | [] \<Rightarrow> t);
          ds = takeWhile isDigit u
      in if ds = [] then None
         else Some (if neg then - int (digitsValue ds) else int (digitsValue ds)))"

definition genericText :: "string \<Rightarrow> int \<Rightarrow> TextBody" where
  "genericText extra num = \<lparr>numeric = num, content = extra @ toString num\<rparr>"

definition playerScore :: "int \<Rightarrow> TextBody" where
  "playerScore = genericText ''''"

definition aiScore :: "int \<Rightarrow> TextBody" where
  "aiScore = genericText ''''"

text \<open>The generator \<^verbatim>\<open>playerEnergy\<close>; the name is kept for the field of the game state.\<close>

definition playerEnergy_mk :: "int \<Rightarrow> TextBody" where
  "playerEnergy_mk = genericText ''Rage: ''"

section \<open>Actions\<close>

text \<open>
  The stream that the reducer folds merges the key presses, which are objects of the five
  action classes, with the ticker \<^verbatim>\<open>interval(10)\<close>, which emits its counter: a plain number,
  an instance of none of the classes. \<open>Tick n\<close> is that number.
\<close>

datatype Actions =
    Movement real real
  | PaddleGrowth real
  | Teleport
  | PaddleShrink real
  | Drain
  | Tick nat

section \<open>The game state and its defaults\<close>

record State =
  paddleOne :: RectBody
  paddleTwo :: RectBody
  ball :: CircleBody
  scoreOne :: TextBody
  scoreTwo :: TextBody
  playerEnergy :: TextBody
  winnerIs :: scoreUpdateTracker

definition changeScore :: "(int \<Rightarrow> TextBody) \<Rightarrow> TextBody \<Rightarrow> TextBody" where
  "changeScore target curren = target (numeric curren + 1)"

definition changePlayerScore :: "TextBody \<Rightarrow> TextBody" where
  "changePlayerScore = changeScore playerScore"

definition changeCpuScore :: "TextBody \<Rightarrow> TextBody" where
  "changeCpuScore = changeScore aiScore"

definition halfway :: real where
  "halfway = topBound + (canvasBottom - bottomBound - topBound) / 2"

definition createDefaultPaddleState :: "paddleGenerator \<Rightarrow> RectBody" where
  "createDefaultPaddleState paddle =
     paddle (halfway - paddleYWidth / 2) 0 startingEnergy paddleYWidth"

definition defaultPlayerPaddleState :: RectBody where
  "defaultPlayerPaddleState = createDefaultPaddleState playerPaddle"

definition defaultAiPaddleState :: RectBody where
  "defaultAiPaddleState = createDefaultPaddleState aiPaddle"

text \<open>\<^verbatim>\<open>Math.round\<close>: the nearest integer, a half rounded up.\<close>

definition Math_round :: "real \<Rightarrow> real" where
  "Math_round x = of_int \<lfloor>x + 1 / 2\<rfloor>"

text \<open>
  \<^verbatim>\<open>Math.random()\<close> is an input of the model: a function that calls it takes the values
  drawn, in the order of the calls, as its last arguments. \<^verbatim>\<open>genericDefaultBall\<close> draws
  \<open>r1\<close> for the test and \<open>r2\<close> in the branch taken.
\<close>

definition genericDefaultBall :: "real \<Rightarrow> real \<Rightarrow> real \<Rightarrow> real \<Rightarrow> CircleBody" where
  "genericDefaultBall multiplierX multiplierY r1 r2 =
     (let yVelocity = Math_round (if r1 > 1 / 2 then ballBaseYSpeed * r2 / 2
                                  else - ballBaseYSpeed * r2 / 3)
      in ball_mk (canvasRight / 2) (canvasBottom / 2)
           (multiplierX * ballBaseXSpeed) (multiplierY * yVelocity) None)"

definition defaultBallState1 :: "real \<Rightarrow> real \<Rightarrow> CircleBody" where
  "defaultBallState1 = genericDefaultBall (- 1) 1"

definition defaultBallState2 :: "real \<Rightarrow> real \<Rightarrow> CircleBody" where
  "defaultBallState2 = genericDefaultBall 1 1"

definition defaultStillBall :: "real \<Rightarrow> real \<Rightarrow> CircleBody" where
  "defaultStillBall = genericDefaultBall 0 0"

definition defaultPlayerScoreState :: TextBody where
  "defaultPlayerScoreState = playerScore 0"

definition defaultCPUScoreState :: TextBody where
  "defaultCPUScoreState = aiScore 0"

definition defaultPlayerEnergyState :: TextBody where
  "defaultPlayerEnergyState = playerEnergy_mk startingEnergy"

definition defaultEverythingState :: "real \<Rightarrow> real \<Rightarrow> State" where
  "defaultEverythingState r1 r2 =
     \<lparr>paddleOne = defaultPlayerPaddleState, paddleTwo = defaultAiPaddleState,
      ball = defaultBallState2 r1 r2, scoreOne = defaultPlayerScoreState,
      scoreTwo = defaultCPUScoreState, playerEnergy = defaultPlayerEnergyState,
      winnerIs = None\<rparr>"

section \<open>Paddle and ball physics\<close>

definition movingPaddleState :: "paddleGenerator \<Rightarrow> RectBody \<Rightarrow> real \<Rightarrow> RectBody" where
  "movingPaddleState person paddle vel =
     (let top = topBound; bottomWall = canvasBottom - bottomBound;
          yPosition = yPos paddle;
          bottom = bottomWall - ySize paddle;
          newYPos = yPosition + vel
      in if (yPosition > top \<and> yPosition < bottom) \<or> (yPosition \<le> top \<and> vel \<ge> 0)
            \<or> (yPosition \<ge> bottom \<and> vel \<le> 0)
         then (if newYPos < top \<and> vel < 0 then person top 0 (energy paddle) (ySize paddle)
               else if newYPos > bottom \<and> vel > 0
                    then person bottom 0 (energy paddle) (ySize paddle)
               else person (yPosition + vel) vel (energy paddle) (ySize paddle))
         else person yPosition 0 (energy paddle) (ySize paddle))"

text \<open>
  The parameter \<^verbatim>\<open>ball\<close> of \<^verbatim>\<open>makePaddleState\<close> is optional and two of the three calls omit
  it. The teleport branch reads \<^verbatim>\<open>ball.yPos\<close>, which throws a \<^verbatim>\<open>TypeError\<close> when the ball
  is \<^verbatim>\<open>undefined\<close>: the result \<open>None\<close>.
\<close>

definition makePaddleState ::
  "paddleGenerator \<Rightarrow> RectBody \<Rightarrow> Actions \<Rightarrow> CircleBody option \<Rightarrow> RectBody option" where
  "makePaddleState person prev paddle b =
     (case paddle of
        Movement y x \<Rightarrow> Some (movingPaddleState person prev y)
      | _ \<Rightarrow>
     (case (paddle, energy prev > 0) of
        (PaddleGrowth sz, True) \<Rightarrow>
          Some (person (yPos prev) (yVel prev) (energy prev - 1) (sz + ySize prev))
      | _ \<Rightarrow>
     (case (paddle, energy prev > 0) of
        (Teleport, True) \<Rightarrow>
          (case b of
             None \<Rightarrow> None
           | Some bl \<Rightarrow> Some (person (yPos bl) (yVel bl) (energy prev - 1) (ySize prev)))
      | _ \<Rightarrow>
     (case (paddle, energy prev > 0) of
        (Drain, True) \<Rightarrow>
          Some (person (yPos prev) (yVel prev) (energy prev - 1) (ySize prev))
      | _ \<Rightarrow>
     (case paddle of
        PaddleShrink sz \<Rightarrow>
          Some (person (yPos prev) (yVel prev) (energy prev) (ySize prev - sz))
      | _ \<Rightarrow> Some (movingPaddleState person prev (yVel prev)))))))"

definition followBall :: "RectBody \<Rightarrow> CircleBody \<Rightarrow> Actions" where
  "followBall paddle b =
     (let speed = paddleSpeed + cpuCheating;
          paddleLoc = yPos paddle + ySize paddle / 2;
          ballLoc = yPos b
      in if paddleLoc < ballLoc then Movement speed 0
         else if paddleLoc > ballLoc then Movement (- 1 * speed) 0
         else Movement 0 0)"

text \<open>
  \<^verbatim>\<open>calculateBallVel\<close>, the local function of \<^verbatim>\<open>movingBallState\<close>; \<open>r\<close> is its draw of
  \<^verbatim>\<open>Math.random()\<close>.
\<close>

definition calculateBallVel :: "real \<Rightarrow> real \<Rightarrow> real \<Rightarrow> real \<Rightarrow> real" where
  "calculateBallVel ymin ymax impactZone r =
     (let center = (ymax + ymin) / 2;
          distVector = impactZone - center;
          distance = (if distVector < 0 then - 1 * distVector else distVector)
      in ballBaseYSpeed * r + distance / 8)"

text \<open>
  A paddle branch of \<^verbatim>\<open>movingBallState\<close> calls \<^verbatim>\<open>calculateBallVel\<close> twice, first for the
  new position (draw \<open>r1\<close>), then for the new velocity (draw \<open>r2\<close>).
\<close>

definition movingBallState ::
  "CircleBody \<Rightarrow> RectBody \<Rightarrow> RectBody \<Rightarrow> real \<Rightarrow> real \<Rightarrow> CircleBody" where
  "movingBallState b player cpu r1 r2 =
     (let canvasWidth = canvasRight; canvasHeight = canvasBottom; sideWallSize = sideBound;
          topWallSize = topBound; botWallSize = bottomBound;
          playerXleft = xPos player; playerYtop = yPos player;
          playerXright = playerXleft + xSize player; playerYbottom = playerYtop + ySize player;
          cpuXleft = xPos cpu; cpuYtop = yPos cpu;
          cpuXright = cpuXleft + xSize cpu; cpuYbottom = cpuYtop + ySize cpu;
          yp = yPos b; xp = xPos b;
          xBounds0 = xPos b - radius b; xBounds1 = xPos b + radius b;
          yBounds0 = yPos b - radius b; yBounds1 = yPos b + radius b
      in if xBounds0 \<le> sideWallSize then ball_mk xp yp 0 0 (Some C)
         else if xBounds1 \<ge> canvasWidth - sideWallSize then ball_mk xp yp 0 0 (Some P)
         else if (yBounds0 \<le> topWallSize \<and> yVel b < 0)
                 \<or> (yBounds1 \<ge> canvasHeight - botWallSize \<and> yVel b > 0)
              then ball_mk (xp + xVel b) (yp - yVel b) (xVel b) (- 1 * yVel b) None
         else if (playerXleft \<le> xBounds0 \<and> xBounds0 \<le> playerXright)
                 \<and> ((playerYtop \<le> yBounds0 \<and> yBounds0 \<le> playerYbottom)
                      \<or> (playerYtop \<le> yBounds1 \<and> yBounds1 \<le> playerYbottom))
                 \<and> canvasWidth > xp
                 \<and> xVel b < 0
              then ball_mk (xp - xVel b) (yp + calculateBallVel playerYtop playerYbottom yp r1)
                     (- 1 * xVel b) (calculateBallVel playerYtop playerYbottom yp r2) None
         else if (cpuXleft \<le> xBounds1 \<and> xBounds1 \<le> cpuXright)
                 \<and> ((cpuYtop \<le> yBounds0 \<and> yBounds0 \<le> cpuYbottom)
                      \<or> (cpuYtop \<le> yBounds1 \<and> yBounds1 \<le> cpuYbottom))
                 \<and> canvasWidth / 2 < xp
                 \<and> xVel b > 0
              then ball_mk (xp - xVel b) (yp + calculateBallVel cpuYtop cpuYbottom yp r1)
                     (- 1 * xVel b) (calculateBallVel cpuYtop cpuYbottom yp r2) None
         else ball_mk (xp + xVel b) (yp + yVel b) (xVel b) (yVel b) None)"

section \<open>The reducer\<close>

definition createState ::
  "RectBody \<Rightarrow> RectBody \<Rightarrow> CircleBody \<Rightarrow> TextBody \<Rightarrow> TextBody \<Rightarrow> TextBody
     \<Rightarrow> scoreUpdateTracker \<Rightarrow> State" where
  "createState player cpu b sc1 sc2 en winner =
     \<lparr>paddleOne = player, paddleTwo = cpu, ball = b, scoreOne = sc1, scoreTwo = sc2,
      playerEnergy = en, winnerIs = winner\<rparr>"

definition createEndState :: "State \<Rightarrow> Actions \<Rightarrow> scoreUpdateTracker \<Rightarrow> real \<Rightarrow> real \<Rightarrow> State" where
  "createEndState acc s whoWon r1 r2 =
     createState
       (playerPaddle (yPos defaultPlayerPaddleState) (yVel defaultPlayerPaddleState)
          (numeric (playerEnergy acc)) (ySize defaultPlayerPaddleState))
       (aiPaddle (yPos defaultAiPaddleState) (yVel defaultAiPaddleState)
          (energy (paddleTwo acc)) (ySize defaultAiPaddleState))
       (defaultStillBall r1 r2)
       (scoreOne acc) (scoreTwo acc) (playerEnergy acc) whoWon"

text \<open>
  A state is built from the two paddles when both calls of \<^verbatim>\<open>makePaddleState\<close> return;
  an exception of either leaves the arrow function without a state (\<open>None\<close>).
\<close>

definition createStandardParseState ::
  "State \<Rightarrow> Actions \<Rightarrow> int \<Rightarrow> real \<Rightarrow> real \<Rightarrow> State option" where
  "createStandardParseState acc s energyDrain r1 r2 =
     (case makePaddleState playerPaddle (paddleOne acc) s (Some (ball acc)) of
        None \<Rightarrow> None
      | Some player \<Rightarrow>
     (case makePaddleState aiPaddle (paddleTwo acc) (followBall (paddleTwo acc) (ball acc)) None of
        None \<Rightarrow> None
      | Some cpu \<Rightarrow>
          Some (createState player cpu
                  (movingBallState (ball acc) (paddleOne acc) (paddleTwo acc) r1 r2)
                  (scoreOne acc) (scoreTwo acc)
                  (playerEnergy_mk (numeric (playerEnergy acc) - energyDrain)) None)))"

fun isPaddleGrowth :: "Actions \<Rightarrow> bool" where
  "isPaddleGrowth (PaddleGrowth _) = True"
| "isPaddleGrowth _ = False"

fun isTeleport :: "Actions \<Rightarrow> bool" where
  "isTeleport Teleport = True"
| "isTeleport _ = False"

fun isPaddleShrink :: "Actions \<Rightarrow> bool" where
  "isPaddleShrink (PaddleShrink _) = True"
| "isPaddleShrink _ = False"

text \<open>
  The function that \<^verbatim>\<open>scan\<close> folds over the merged stream in \<^verbatim>\<open>gameObserver\<close>; \<open>r1\<close> and
  \<open>r2\<close> are the draws of \<^verbatim>\<open>Math.random()\<close> that the step may make (no branch makes more
  than two).
\<close>

definition gameObserver_scan :: "real \<Rightarrow> real \<Rightarrow> State \<Rightarrow> Actions \<Rightarrow> State option" where
  "gameObserver_scan r1 r2 acc s =
     (if (isPaddleGrowth s \<or> isTeleport s) \<and> numeric (playerEnergy acc) > 0
      then createStandardParseState acc s 1 r1 r2
      else if isPaddleShrink s
      then (if numeric (playerEnergy acc) > 0
            then (case makePaddleState playerPaddle (paddleOne acc) Drain None of
                    None \<Rightarrow> None
                  | Some player \<Rightarrow>
                 (case makePaddleState aiPaddle (paddleTwo acc) s None of
                    None \<Rightarrow> None
                  | Some cpu \<Rightarrow>
                      Some (createState player cpu
                              (movingBallState (ball acc) (paddleOne acc) (paddleTwo acc) r1 r2)
                              (scoreOne acc) (scoreTwo acc)
                              (playerEnergy_mk (numeric (playerEnergy acc) - 1)) None)))
            else createStandardParseState acc (Movement 0 0) 0 r1 r2)
      else if scoreUpdate (ball acc) = Some P
      then Some (createState
             (playerPaddle (yPos defaultPlayerPaddleState) (yVel defaultPlayerPaddleState)
                (numeric (playerEnergy acc)) (ySize defaultPlayerPaddleState))
             (aiPaddle (yPos defaultAiPaddleState) (yVel defaultAiPaddleState)
                (energy (paddleTwo acc)) (ySize defaultAiPaddleState))
             (defaultBallState1 r1 r2)
             (changePlayerScore (scoreOne acc)) (scoreTwo acc)
             (playerEnergy_mk (numeric (playerEnergy acc))) None)
      else if scoreUpdate (ball acc) = Some C
      then Some (createState
             (playerPaddle (yPos defaultPlayerPaddleState) (yVel defaultPlayerPaddleState)
                (numeric (playerEnergy acc) + 1) (ySize defaultPlayerPaddleState))
             (aiPaddle (yPos defaultAiPaddleState) (yVel defaultAiPaddleState)
                (energy (paddleTwo acc)) (ySize defaultAiPaddleState))
             (defaultBallState2 r1 r2)
             (scoreOne acc) (changeCpuScore (scoreTwo acc))
             (playerEnergy_mk (numeric (playerEnergy acc) + 1)) None)
      else if parseInt (content (scoreOne acc)) = Some winningScore
      then Some (createEndState acc s (Some P) r1 r2)
      else if parseInt (content (scoreTwo acc)) = Some winningScore
      then Some (createEndState acc s (Some C) r1 r2)
      else createStandardParseState acc s 0 r1 r2)"

section \<open>The event stream and the running game\<close>

text \<open>
  What the merged stream can deliver: the objects built by the key observers
  (\<^verbatim>\<open>keyUpArrow\<close>, \<^verbatim>\<open>keyDownArrow\<close>, \<^verbatim>\<open>keyE\<close>, \<^verbatim>\<open>keyQ\<close>, \<^verbatim>\<open>keyR\<close>,
  \<^verbatim>\<open>keyRelease\<close>) and the counter of the ticker. No observer emits a \<^verbatim>\<open>Drain\<close>.
\<close>

fun emitted :: "Actions \<Rightarrow> bool" where
  "emitted (Movement y x) =
     (x = 0 \<and> (y = - 1 * paddleSpeed \<or> y = 1 * paddleSpeed \<or> y = 0))"
| "emitted (PaddleGrowth sz) = (sz = paddleGrowthAbility)"
| "emitted Teleport = True"
| "emitted (PaddleShrink sz) = (sz = paddleShrinkAbility)"
| "emitted Drain = False"
| "emitted (Tick n) = True"

text \<open>
  An event of the merged stream, paired with the two values that \<^verbatim>\<open>Math.random()\<close> would
  return during its step; a draw lies in \<open>[0, 1)\<close>.
\<close>

type_synonym event = "real \<times> real \<times> Actions"

definition draw :: "real \<Rightarrow> bool" where
  "draw r = (0 \<le> r \<and> r < 1)"

fun admissible :: "event \<Rightarrow> bool" where
  "admissible (r1, r2, s) = (draw r1 \<and> draw r2 \<and> emitted s)"

text \<open>
  The subscription \<^verbatim>\<open>game\<close>: every state that the scan emits goes to \<^verbatim>\<open>updateView\<close>, which
  calls \<^verbatim>\<open>gameOver\<close> as soon as \<^verbatim>\<open>winnerIs\<close> is not \<^verbatim>\<open>null\<close>, and \<^verbatim>\<open>gameOver\<close>
  unsubscribes: later events are not delivered to the reducer. \<open>game_from acc es\<close> is the
  last state emitted when the events \<open>es\<close> arrive in a game whose accumulator is \<open>acc\<close>.
\<close>

fun game_from :: "State \<Rightarrow> event list \<Rightarrow> State option" where
  "game_from acc [] = Some acc"
| "game_from acc ((r1, r2, s) # es) =
     (if winnerIs acc \<noteq> None then Some acc
      else case gameObserver_scan r1 r2 acc s of
             None \<Rightarrow> None
           | Some acc' \<Rightarrow> game_from acc' es)"

text \<open>
  A game starts, and restarts after \<^verbatim>\<open>gameOver\<close>, from \<^verbatim>\<open>defaultEverythingState\<close>, whose
  ball was drawn with \<open>r1\<close> and \<open>r2\<close>.
\<close>

definition game :: "real \<Rightarrow> real \<Rightarrow> event list \<Rightarrow> State option" where
  "game r1 r2 es = game_from (defaultEverythingState r1 r2) es"

text \<open>The states that a game passes through.\<close>

inductive reachable :: "State \<Rightarrow> bool" where
  start: "draw r1 \<Longrightarrow> draw r2 \<Longrightarrow> reachable (defaultEverythingState r1 r2)"
| step: "reachable acc \<Longrightarrow> winnerIs acc = None \<Longrightarrow> draw r1 \<Longrightarrow> draw r2 \<Longrightarrow> emitted s
         \<Longrightarrow> gameObserver_scan r1 r2 acc s = Some out \<Longrightarrow> reachable out"

section \<open>Properties named by the specification\<close>

text \<open>The vertical bounds of a paddle: \<open>[topBound, bottom wall - height]\<close>.\<close>

definition paddleInBounds :: "RectBody \<Rightarrow> bool" where
  "paddleInBounds p =
     (topBound \<le> yPos p \<and> yPos p \<le> canvasBottom - bottomBound - ySize p)"

text \<open>
  The first two tests of the reducer: the event takes an ability branch (growth or teleport
  with energy on the display, or any shrink ray).
\<close>

definition abilityBranch :: "State \<Rightarrow> Actions \<Rightarrow> bool" where
  "abilityBranch acc s =
     (((isPaddleGrowth s \<or> isTeleport s) \<and> numeric (playerEnergy acc) > 0)
      \<or> isPaddleShrink s)"

section \<open>Sample runs\<close>

text \<open>
  The runs exhibited below pass through states of one shape: the ball flies level at height
  300, the cpu's paddle rests centred on it, the player's score is 0 and nobody has won.
  \<open>rally py pv psz e bx bvx n\<close> is that state with the player's paddle at \<open>py\<close> with velocity
  \<open>pv\<close>, height \<open>psz\<close> and energy \<open>e\<close>, the ball at \<open>bx\<close> with horizontal velocity \<open>bvx\<close>, and
  the cpu's score \<open>n\<close>.
\<close>

definition rally :: "real \<Rightarrow> real \<Rightarrow> real \<Rightarrow> int \<Rightarrow> real \<Rightarrow> real \<Rightarrow> int \<Rightarrow> State" where
  "rally py pv psz e bx bvx n =
     \<lparr>paddleOne = playerPaddle py pv e psz, paddleTwo = aiPaddle 255 0 4 90,
      ball = ball_mk bx 300 bvx 0 None, scoreOne = playerScore 0, scoreTwo = aiScore n,
      playerEnergy = playerEnergy_mk e, winnerIs = None\<rparr>"

text \<open>
  \<open>clear\<close>: in a rally state the next tick moves the paddle freely (it is strictly inside its
  bounds and its candidate position is within them) and the ball touches neither a wall nor
  a paddle.
\<close>

definition clear :: "real \<Rightarrow> real \<Rightarrow> real \<Rightarrow> real \<Rightarrow> real \<Rightarrow> bool" where
  "clear py pv psz bx bvx =
     (10 < py \<and> py < 590 - psz \<and> 10 \<le> py + pv \<and> py + pv \<le> 590 - psz
      \<and> 20 < bx \<and> bx < 880
      \<and> (0 \<le> bvx \<or> 60 < bx \<or> 310 < py)
      \<and> (bvx \<le> 0 \<or> bx < 840))"

text \<open>A tick of the timer with both draws 0.\<close>

definition tick :: event where
  "tick = (0, 0, Tick 0)"

text \<open>
  The events of a rally that the player gives away: the paddle is moved down out of the
  ball's way and stopped, the ball returns from the cpu's paddle, reaches the left wall and
  the goal is counted.
\<close>

definition goalRun :: "event list" where
  "goalRun = (0, 0, Movement 5 0) # replicate 11 tick @ (0, 0, Movement 0 0)
               # replicate 65 tick @ tick # replicate 163 tick @ [tick, tick]"

section \<open>Auxiliary facts\<close>

subsection \<open>Fields of the generated bodies\<close>

lemmas Constants_defs =
  winningScore_def topBound_def bottomBound_def sideBound_def paddleXWidth_def
  paddleYWidth_def ballRadius_def ballBaseXSpeed_def ballBaseYSpeed_def paddleSpeed_def
  cpuCheating_def startingEnergy_def paddleGrowthAbility_def paddleShrinkAbility_def
  canvasRight_def canvasBottom_def

lemma genericPaddle_sel [simp]:
  "xPos (genericPaddle xp w p v e l) = xp" "yPos (genericPaddle xp w p v e l) = p"
  "xVel (genericPaddle xp w p v e l) = 0" "yVel (genericPaddle xp w p v e l) = v"
  "xSize (genericPaddle xp w p v e l) = w" "ySize (genericPaddle xp w p v e l) = l"
  "energy (genericPaddle xp w p v e l) = e"
  by (simp_all add: genericPaddle_def)

lemma paddle_sel [simp]:
  "xPos (playerPaddle p v e l) = 30" "xPos (aiPaddle p v e l) = 850"
  "yPos (playerPaddle p v e l) = p" "yPos (aiPaddle p v e l) = p"
  "yVel (playerPaddle p v e l) = v" "yVel (aiPaddle p v e l) = v"
  "xSize (playerPaddle p v e l) = 20" "xSize (aiPaddle p v e l) = 20"
  "ySize (playerPaddle p v e l) = l" "ySize (aiPaddle p v e l) = l"
  "energy (playerPaddle p v e l) = e" "energy (aiPaddle p v e l) = e"
  by (simp_all add: playerPaddle_def aiPaddle_def Constants_defs)

lemma ball_mk_sel [simp]:
  "xPos (ball_mk x y vx vy m) = x" "yPos (ball_mk x y vx vy m) = y"
  "xVel (ball_mk x y vx vy m) = vx" "yVel (ball_mk x y vx vy m) = vy"
  "radius (ball_mk x y vx vy m) = ballRadius" "scoreUpdate (ball_mk x y vx vy m) = m"
  by (simp_all add: ball_mk_def)

lemma genericText_sel [simp]:
  "numeric (genericText ex n) = n" "content (genericText ex n) = ex @ toString n"
  by (simp_all add: genericText_def)

lemma text_mk_sel [simp]:
  "numeric (playerScore n) = n" "numeric (aiScore n) = n" "numeric (playerEnergy_mk n) = n"
  "content (playerScore n) = toString n" "content (aiScore n) = toString n"
  by (simp_all add: playerScore_def aiScore_def playerEnergy_mk_def)

lemma createState_sel [simp]:
  "paddleOne (createState p c b s1 s2 e w) = p" "paddleTwo (createState p c b s1 s2 e w) = c"
  "ball (createState p c b s1 s2 e w) = b" "scoreOne (createState p c b s1 s2 e w) = s1"
  "scoreTwo (createState p c b s1 s2 e w) = s2" "playerEnergy (createState p c b s1 s2 e w) = e"
  "winnerIs (createState p c b s1 s2 e w) = w"
  by (simp_all add: createState_def)

lemma default_paddle_sel [simp]:
  "yPos defaultPlayerPaddleState = 255" "yVel defaultPlayerPaddleState = 0"
  "ySize defaultPlayerPaddleState = 90" "energy defaultPlayerPaddleState = 4"
  "yPos defaultAiPaddleState = 255" "yVel defaultAiPaddleState = 0"
  "ySize defaultAiPaddleState = 90" "energy defaultAiPaddleState = 4"
  by (simp_all add: defaultPlayerPaddleState_def defaultAiPaddleState_def
      createDefaultPaddleState_def playerPaddle_def aiPaddle_def halfway_def Constants_defs)

lemma defaultBall_sel [simp]:
  "xPos (genericDefaultBall mx my r1 r2) = 450" "yPos (genericDefaultBall mx my r1 r2) = 300"
  "xVel (genericDefaultBall mx my r1 r2) = mx * 5"
  "scoreUpdate (genericDefaultBall mx my r1 r2) = None"
  by (simp_all add: genericDefaultBall_def Let_def Constants_defs)

subsection \<open>\<^verbatim>\<open>parseInt\<close> reads back what \<^verbatim>\<open>toString\<close> wrote\<close>

lemma digitVal_digitChar: "d < 10 \<Longrightarrow> digitVal (digitChar d) = Some d"
proof -
  assume "d < 10"
  then have "d \<in> {0, 1, 2, 3, 4, 5, 6, 7, 8, 9}" by auto
  then show ?thesis by (auto simp: digitChar_def digitVal_def)
qed

lemma digitsValue_snoc: "digitsValue (ds @ [c]) = 10 * digitsValue ds + the (digitVal c)"
  by (simp add: digitsValue_def)

lemma decimal_digits:
  "decimal n \<noteq> [] \<and> (\<forall>c \<in> set (decimal n). isDigit c) \<and> digitsValue (decimal n) = n"
proof (induction n rule: decimal.induct)
  case (1 n)
  show ?case
  proof (cases "n < 10")
    case True
    then show ?thesis
      by (simp add: decimal.simps [of n] isDigit_def digitVal_digitChar digitsValue_def)
  next
    case False
    with 1 have ih: "decimal (n div 10) \<noteq> []" "\<forall>c \<in> set (decimal (n div 10)). isDigit c"
      "digitsValue (decimal (n div 10)) = n div 10" by auto
    have m: "n mod 10 < 10" by simp
    from False ih m show ?thesis
      by (simp add: decimal.simps [of n] isDigit_def digitVal_digitChar digitsValue_snoc)
  qed
qed

lemma decimal_hd:
  "\<exists>c cs. decimal n = c # cs \<and> isDigit c \<and> c \<noteq> CHR ''-'' \<and> c \<noteq> CHR ''+'' \<and> c \<noteq> CHR '' ''"
proof -
  obtain c cs where d: "decimal n = c # cs"
    using decimal_digits [of n] by (cases "decimal n") auto
  then have "isDigit c" using decimal_digits [of n] by simp
  then have "c \<noteq> CHR ''-'' \<and> c \<noteq> CHR ''+'' \<and> c \<noteq> CHR '' ''"
    by (auto simp: isDigit_def digitVal_def)
  with d \<open>isDigit c\<close> show ?thesis by blast
qed

lemma takeWhile_decimal: "takeWhile isDigit (decimal n) = decimal n"
  using decimal_digits [of n] by (simp add: takeWhile_eq_all_conv)

lemma parseInt_toString [simp]: "parseInt (toString n) = Some n"
proof (cases "n < 0")
  case True
  then show ?thesis
    using decimal_digits [of "nat (- n)"]
    by (simp add: parseInt_def toString_def takeWhile_decimal)
next
  case False
  obtain c cs where d: "decimal (nat n) = c # cs" "isDigit c" "c \<noteq> CHR ''-''"
    "c \<noteq> CHR ''+''" "c \<noteq> CHR '' ''"
    using decimal_hd [of "nat n"] by blast
  have tw: "takeWhile isDigit cs = cs" using takeWhile_decimal [of "nat n"] d by simp
  have dv: "digitsValue (c # cs) = nat n" using decimal_digits [of "nat n"] d by simp
  from False d show ?thesis
    by (simp add: parseInt_def toString_def tw dv)
qed

lemma parseInt_score [simp]:
  "parseInt (content (playerScore n)) = Some n" "parseInt (content (aiScore n)) = Some n"
  by (simp_all add: parseInt_toString)

subsection \<open>One step of the reducer\<close>

text \<open>
  Each call of \<^verbatim>\<open>makePaddleState\<close> that the reducer makes returns: the player's call
  passes the ball, the cpu's call passes a \<^verbatim>\<open>Movement\<close> and the shrink branch passes a
  \<^verbatim>\<open>Drain\<close> or a \<^verbatim>\<open>PaddleShrink\<close>, none of which reads the ball. So every step returns
  a state (\<open>gameObserver_scan_total\<close>).
\<close>

lemma movingBallState_wall:
  assumes "sideBound < xPos b - radius b" and "xPos b + radius b < canvasRight - sideBound"
    and "(yPos b - radius b \<le> topBound \<and> yVel b < 0)
         \<or> (yPos b + radius b \<ge> canvasBottom - bottomBound \<and> yVel b > 0)"
  shows "movingBallState b player cpu r1 r2
         = ball_mk (xPos b + xVel b) (yPos b - yVel b) (xVel b) (- yVel b) None"
  using assms by (simp add: movingBallState_def Let_def)

lemma movingPaddleState_keeps [simp]:
  "energy (movingPaddleState (genericPaddle xp w) p v) = energy p"
  "ySize (movingPaddleState (genericPaddle xp w) p v) = ySize p"
  by (simp_all add: movingPaddleState_def Let_def)

lemma movingPaddleState_inBounds:
  "paddleInBounds p \<Longrightarrow> paddleInBounds (movingPaddleState (genericPaddle xp w) p v)"
  by (auto simp: paddleInBounds_def movingPaddleState_def Let_def)

lemma makePaddleState_Movement [simp]:
  "makePaddleState person prev (Movement y x) b = Some (movingPaddleState person prev y)"
  by (simp add: makePaddleState_def)

lemma makePaddleState_Tick [simp]:
  "makePaddleState person prev (Tick n) b = Some (movingPaddleState person prev (yVel prev))"
  by (simp add: makePaddleState_def)

lemma makePaddleState_PaddleShrink [simp]:
  "makePaddleState person prev (PaddleShrink sz) b
     = Some (person (yPos prev) (yVel prev) (energy prev) (ySize prev - sz))"
  by (simp add: makePaddleState_def)

lemma makePaddleState_PaddleGrowth [simp]:
  "makePaddleState person prev (PaddleGrowth sz) b
     = Some (if energy prev > 0
             then person (yPos prev) (yVel prev) (energy prev - 1) (sz + ySize prev)
             else movingPaddleState person prev (yVel prev))"
  by (simp add: makePaddleState_def)

lemma makePaddleState_Teleport [simp]:
  "makePaddleState person prev Teleport (Some b)
     = Some (if energy prev > 0
             then person (yPos b) (yVel b) (energy prev - 1) (ySize prev)
             else movingPaddleState person prev (yVel prev))"
  by (simp add: makePaddleState_def)

lemma makePaddleState_Drain [simp]:
  "makePaddleState person prev Drain b
     = Some (if energy prev > 0
             then person (yPos prev) (yVel prev) (energy prev - 1) (ySize prev)
             else movingPaddleState person prev (yVel prev))"
  by (simp add: makePaddleState_def)

lemma makePaddleState_ai [simp]:
  "makePaddleState person prev (followBall c b) None
     = Some (movingPaddleState person prev
         (if yPos c + ySize c / 2 < yPos b then 7 else if yPos c + ySize c / 2 > yPos b then - 7 else 0))"
  by (simp add: followBall_def Let_def Constants_defs)

lemma createStandardParseState_eq:
  "createStandardParseState acc s d r1 r2 =
     Some (createState (the (makePaddleState playerPaddle (paddleOne acc) s (Some (ball acc))))
       (movingPaddleState aiPaddle (paddleTwo acc)
         (if yPos (paddleTwo acc) + ySize (paddleTwo acc) / 2 < yPos (ball acc) then 7
          else if yPos (paddleTwo acc) + ySize (paddleTwo acc) / 2 > yPos (ball acc) then - 7
          else 0))
       (movingBallState (ball acc) (paddleOne acc) (paddleTwo acc) r1 r2)
       (scoreOne acc) (scoreTwo acc) (playerEnergy_mk (numeric (playerEnergy acc) - d)) None)"
  by (cases s) (simp_all add: createStandardParseState_def)

lemma gameObserver_scan_total: "\<exists>out. gameObserver_scan r1 r2 acc s = Some out"
  by (cases s) (simp_all add: gameObserver_scan_def createStandardParseState_eq)

lemma defaultStillBall_eq: "defaultStillBall r1 r2 = ball_mk 450 300 0 0 None"
  by (simp add: defaultStillBall_def genericDefaultBall_def Let_def Constants_defs)

lemma createEndState_sel [simp]:
  "paddleOne (createEndState acc s w r1 r2) = playerPaddle 255 0 (numeric (playerEnergy acc)) 90"
  "paddleTwo (createEndState acc s w r1 r2) = aiPaddle 255 0 (energy (paddleTwo acc)) 90"
  "ball (createEndState acc s w r1 r2) = ball_mk 450 300 0 0 None"
  "scoreOne (createEndState acc s w r1 r2) = scoreOne acc"
  "scoreTwo (createEndState acc s w r1 r2) = scoreTwo acc"
  "playerEnergy (createEndState acc s w r1 r2) = playerEnergy acc"
  "winnerIs (createEndState acc s w r1 r2) = w"
  by (simp_all add: createEndState_def defaultStillBall_eq)

lemma createEndState_indep:
  "createEndState acc s w r1 r2 = createEndState acc (Tick 0) w 0 0"
  by (simp add: createEndState_def defaultStillBall_eq)

lemma end_step:
  assumes "scoreUpdate (ball acc) = None" and "\<not> abilityBranch acc s"
  shows "parseInt (content (scoreOne acc)) = Some winningScore
           \<Longrightarrow> gameObserver_scan r1 r2 acc s = Some (createEndState acc (Tick 0) (Some P) 0 0)"
    and "parseInt (content (scoreOne acc)) \<noteq> Some winningScore
           \<Longrightarrow> parseInt (content (scoreTwo acc)) = Some winningScore
           \<Longrightarrow> gameObserver_scan r1 r2 acc s = Some (createEndState acc (Tick 0) (Some C) 0 0)"
  using assms createEndState_indep [of acc s _ r1 r2]
  by (auto simp: gameObserver_scan_def abilityBranch_def)

subsection \<open>Invariants of the reachable states\<close>

text \<open>
  In every state that a game reaches, the energy of the player's paddle equals the number
  on the energy display, that number is not negative, and the cpu's paddle is within its
  bounds.
\<close>

lemma step_energy_sync:
  assumes "energy (paddleOne acc) = numeric (playerEnergy acc)" and "s \<noteq> Drain"
    and "gameObserver_scan r1 r2 acc s = Some out"
  shows "energy (paddleOne out) = numeric (playerEnergy out)"
  using assms
  by (cases s)
     (auto simp: gameObserver_scan_def createStandardParseState_eq createEndState_def
        playerPaddle_def split: if_splits)

lemma step_energy_nonneg:
  assumes "0 \<le> numeric (playerEnergy acc)"
    and "gameObserver_scan r1 r2 acc s = Some out"
  shows "0 \<le> numeric (playerEnergy out)"
  using assms
  by (cases s)
     (auto simp: gameObserver_scan_def createStandardParseState_eq createEndState_def
        split: if_splits)

lemma step_ai_inBounds:
  assumes "paddleInBounds (paddleTwo acc)" and "emitted s"
    and "gameObserver_scan r1 r2 acc s = Some out"
  shows "paddleInBounds (paddleTwo out)"
proof -
  have m: "\<And>v. paddleInBounds (movingPaddleState aiPaddle (paddleTwo acc) v)"
    using assms(1) by (simp add: aiPaddle_def movingPaddleState_inBounds)
  have d: "paddleInBounds (aiPaddle 255 0 (energy (paddleTwo acc)) 90)"
    by (simp add: paddleInBounds_def aiPaddle_def Constants_defs)
  have s: "paddleInBounds (aiPaddle (yPos (paddleTwo acc)) (yVel (paddleTwo acc))
             (energy (paddleTwo acc)) (ySize (paddleTwo acc) - paddleShrinkAbility))"
    using assms(1) by (simp add: paddleInBounds_def aiPaddle_def Constants_defs)
  from assms(2,3) m d s show ?thesis
    by (cases s)
       (auto simp: gameObserver_scan_def createStandardParseState_eq createEndState_def
          split: if_splits)
qed

lemma step_player_inBounds:
  assumes "paddleInBounds (paddleOne acc)"
    and "\<not> ((isPaddleGrowth s \<or> isTeleport s) \<and> energy (paddleOne acc) > 0)"
    and "gameObserver_scan r1 r2 acc s = Some out"
  shows "paddleInBounds (paddleOne out)"
proof -
  have m: "\<And>v. paddleInBounds (movingPaddleState playerPaddle (paddleOne acc) v)"
    using assms(1) by (simp add: playerPaddle_def movingPaddleState_inBounds)
  have d: "\<And>e. paddleInBounds (playerPaddle 255 0 e 90)"
    by (simp add: paddleInBounds_def playerPaddle_def Constants_defs)
  have s: "\<And>e. paddleInBounds (playerPaddle (yPos (paddleOne acc)) (yVel (paddleOne acc))
             e (ySize (paddleOne acc)))"
    using assms(1) by (simp add: paddleInBounds_def playerPaddle_def Constants_defs)
  from assms(2,3) m d s show ?thesis
    by (cases s)
       (auto simp: gameObserver_scan_def createStandardParseState_eq createEndState_def
          split: if_splits)
qed

lemma reachable_invariants:
  "reachable acc \<Longrightarrow>
     energy (paddleOne acc) = numeric (playerEnergy acc) \<and> 0 \<le> numeric (playerEnergy acc)
     \<and> paddleInBounds (paddleTwo acc)"
proof (induction rule: reachable.induct)
  case (start r1 r2)
  show ?case
    by (simp add: defaultEverythingState_def defaultPlayerEnergyState_def paddleInBounds_def
        aiPaddle_def Constants_defs)
next
  case (step acc r1 r2 s out)
  from step.prems step.hyps step.IH show ?case
    using step_energy_sync [of acc s r1 r2 out] step_energy_nonneg [of acc r1 r2 s out]
      step_ai_inBounds [of acc s r1 r2 out]
    by (cases s) auto
qed

subsection \<open>Runs of the game\<close>

text \<open>
  A rally in which nothing is touched advances paddle and ball linearly (\<open>rally_ticks\<close>);
  the run \<open>goalRun\<close> ends with a goal of the cpu and the kick-off state with one more
  energy and one more point for the cpu (\<open>goalRun_concedes\<close>).
\<close>

lemma game_from_append:
  "game_from acc (es @ fs) = (case game_from acc es of None \<Rightarrow> None | Some a \<Rightarrow> game_from a fs)"
proof (induction es arbitrary: acc)
  case Nil
  show ?case by simp
next
  case (Cons e es)
  obtain r1 r2 s where e: "e = (r1, r2, s)" by (cases e) auto
  show ?case
  proof (cases "winnerIs acc = None")
    case True
    with Cons e show ?thesis by (simp split: option.splits)
  next
    case False
    with e show ?thesis by (cases fs) auto
  qed
qed

lemma game_from_then:
  "game_from acc es = Some a \<Longrightarrow> game_from a fs = Some b \<Longrightarrow> game_from acc (es @ fs) = Some b"
  by (simp add: game_from_append)

lemma game_from_won: "winnerIs acc \<noteq> None \<Longrightarrow> game_from acc es = Some acc"
proof (cases es)
  case Nil
  then show ?thesis by simp
next
  case (Cons e es')
  assume "winnerIs acc \<noteq> None"
  with Cons show ?thesis by (cases e) auto
qed

lemma reachable_game_from:
  "reachable acc \<Longrightarrow> list_all admissible es \<Longrightarrow> game_from acc es = Some out \<Longrightarrow> reachable out"
proof (induction es arbitrary: acc)
  case Nil
  then show ?case by simp
next
  case (Cons e es)
  obtain r1 r2 s where e: "e = (r1, r2, s)" by (cases e) auto
  show ?case
  proof (cases "winnerIs acc = None")
    case True
    obtain a where a: "gameObserver_scan r1 r2 acc s = Some a"
      using gameObserver_scan_total by blast
    from Cons.prems e have "draw r1" "draw r2" "emitted s" by simp_all
    with Cons.prems(1) True a have "reachable a" by (blast intro: reachable.step)
    moreover from Cons.prems e True a have "list_all admissible es" "game_from a es = Some out"
      by simp_all
    ultimately show ?thesis by (rule Cons.IH)
  next
    case False
    with Cons.prems e show ?thesis by simp
  qed
qed

lemma reachable_game:
  "draw r1 \<Longrightarrow> draw r2 \<Longrightarrow> list_all admissible es \<Longrightarrow> game r1 r2 es = Some out \<Longrightarrow> reachable out"
  unfolding game_def by (blast intro: reachable_game_from reachable.start)

lemma rally_sel [simp]:
  "paddleOne (rally py pv psz e bx bvx n) = playerPaddle py pv e psz"
  "paddleTwo (rally py pv psz e bx bvx n) = aiPaddle 255 0 4 90"
  "ball (rally py pv psz e bx bvx n) = ball_mk bx 300 bvx 0 None"
  "scoreOne (rally py pv psz e bx bvx n) = playerScore 0"
  "scoreTwo (rally py pv psz e bx bvx n) = aiScore n"
  "playerEnergy (rally py pv psz e bx bvx n) = playerEnergy_mk e"
  "winnerIs (rally py pv psz e bx bvx n) = None"
  by (simp_all add: rally_def)

lemma rally_createState:
  "createState (playerPaddle py pv e psz) (aiPaddle 255 0 4 90) (ball_mk bx 300 bvx 0 None)
     (playerScore 0) (aiScore n) (playerEnergy_mk e) None = rally py pv psz e bx bvx n"
  by (simp add: rally_def createState_def)

lemma default_is_rally: "defaultEverythingState 0 0 = rally 255 0 90 4 450 5 0"
  by (simp add: defaultEverythingState_def rally_def defaultPlayerPaddleState_def
      defaultAiPaddleState_def createDefaultPaddleState_def halfway_def defaultBallState2_def
      genericDefaultBall_def Math_round_def defaultPlayerScoreState_def
      defaultCPUScoreState_def defaultPlayerEnergyState_def Let_def Constants_defs)

lemma ai_rests:
  "movingPaddleState aiPaddle (aiPaddle 255 0 4 90) 0 = aiPaddle 255 0 4 90"
  by (simp add: movingPaddleState_def aiPaddle_def Let_def Constants_defs)

lemma player_moves:
  "10 < py \<Longrightarrow> py < 590 - psz \<Longrightarrow> 10 \<le> py + v \<Longrightarrow> py + v \<le> 590 - psz
     \<Longrightarrow> movingPaddleState playerPaddle (playerPaddle py pv e psz) v = playerPaddle (py + v) v e psz"
  by (simp add: movingPaddleState_def playerPaddle_def Let_def Constants_defs)

lemma ball_flies:
  "20 < bx \<Longrightarrow> bx < 880 \<Longrightarrow> 0 \<le> bvx \<or> 60 < bx \<or> 310 < py \<Longrightarrow> bvx \<le> 0 \<or> bx < 840
     \<Longrightarrow> movingBallState (ball_mk bx 300 bvx 0 None) (playerPaddle py pv e psz)
           (aiPaddle 255 0 4 90) r1 r2 = ball_mk (bx + bvx) 300 bvx 0 None"
  by (auto simp: movingBallState_def playerPaddle_def aiPaddle_def Let_def Constants_defs)

lemma rally_step:
  assumes "clear py v psz bx bvx" and "n \<noteq> 7"
    and "s = Movement v 0 \<or> (s = Tick t \<and> v = pv)"
  shows "gameObserver_scan r1 r2 (rally py pv psz e bx bvx n) s
         = Some (rally (py + v) v psz e (bx + bvx) bvx n)"
proof -
  from assms(1) have p: "movingPaddleState playerPaddle (playerPaddle py pv e psz) v
      = playerPaddle (py + v) v e psz"
    by (simp add: clear_def player_moves)
  from assms(1) have b: "movingBallState (ball_mk bx 300 bvx 0 None) (playerPaddle py pv e psz)
           (aiPaddle 255 0 4 90) r1 r2 = ball_mk (bx + bvx) 300 bvx 0 None"
    by (intro ball_flies) (simp_all add: clear_def)
  have a: "yPos (aiPaddle 255 0 4 90) + ySize (aiPaddle 255 0 4 90) / 2 = 300"
    by (simp add: aiPaddle_def)
  from assms(3) show ?thesis
  proof
    assume "s = Movement v 0"
    with assms(2) show ?thesis
      by (simp add: gameObserver_scan_def createStandardParseState_eq p b a ai_rests
          rally_createState winningScore_def)
  next
    assume "s = Tick t \<and> v = pv"
    with assms(2) p b show ?thesis
      by (simp add: gameObserver_scan_def createStandardParseState_eq a ai_rests
          rally_createState winningScore_def)
  qed
qed

lemma rally_ticks:
  assumes "\<forall>j<k. clear (py + real j * pv) pv psz (bx + real j * bvx) bvx" and "n \<noteq> 7"
  shows "game_from (rally py pv psz e bx bvx n) (replicate k (r1, r2, Tick t))
         = Some (rally (py + real k * pv) pv psz e (bx + real k * bvx) bvx n)"
  using assms(1)
proof (induction k arbitrary: py bx)
  case 0
  show ?case by simp
next
  case (Suc k)
  from Suc.prems have c0: "clear py pv psz bx bvx" by force
  have st: "gameObserver_scan r1 r2 (rally py pv psz e bx bvx n) (Tick t)
         = Some (rally (py + pv) pv psz e (bx + bvx) bvx n)"
    using c0 assms(2) by (intro rally_step) auto
  have "\<forall>j<k. clear (py + pv + real j * pv) pv psz (bx + bvx + real j * bvx) bvx"
  proof (intro allI impI)
    fix j assume "j < k"
    then have "clear (py + real (Suc j) * pv) pv psz (bx + real (Suc j) * bvx) bvx"
      using Suc.prems by auto
    then show "clear (py + pv + real j * pv) pv psz (bx + bvx + real j * bvx) bvx"
      by (simp add: algebra_simps)
  qed
  from Suc.IH [OF this] st show ?case
    by (simp add: algebra_simps)
qed

lemma rally_collision:
  assumes "10 < py" and "py < 590 - psz" and "n \<noteq> 7"
  shows "gameObserver_scan 0 0 (rally py 0 psz e 840 5 n) (Tick t)
         = Some (rally py 0 psz e 835 (- 5) n)"
proof -
  have p: "movingPaddleState playerPaddle (playerPaddle py 0 e psz) 0 = playerPaddle py 0 e psz"
    using player_moves [of py psz 0 0 e] assms by simp
  have b: "movingBallState (ball_mk 840 300 5 0 None) (playerPaddle py 0 e psz)
             (aiPaddle 255 0 4 90) 0 0 = ball_mk 835 300 (- 5) 0 None"
    by (simp add: movingBallState_def calculateBallVel_def Let_def Constants_defs)
  from assms(3) show ?thesis
    by (simp add: gameObserver_scan_def createStandardParseState_eq p b ai_rests
        rally_createState winningScore_def)
qed

lemma rally_marker:
  assumes "10 < py" and "py < 590 - psz" and "n \<noteq> 7"
  shows "gameObserver_scan r1 r2 (rally py 0 psz e 20 (- 5) n) (Tick t)
         = Some ((rally py 0 psz e 20 0 n)\<lparr>ball := ball_mk 20 300 0 0 (Some C)\<rparr>)"
proof -
  have p: "movingPaddleState playerPaddle (playerPaddle py 0 e psz) 0 = playerPaddle py 0 e psz"
    using player_moves [of py psz 0 0 e] assms by simp
  have b: "movingBallState (ball_mk 20 300 (- 5) 0 None) (playerPaddle py 0 e psz)
             (aiPaddle 255 0 4 90) r1 r2 = ball_mk 20 300 0 0 (Some C)"
    by (simp add: movingBallState_def Let_def Constants_defs)
  from assms(3) show ?thesis
    by (simp add: gameObserver_scan_def createStandardParseState_eq p b ai_rests
        winningScore_def rally_def createState_def)
qed

lemma conceded_goal:
  "gameObserver_scan 0 0 ((rally py 0 psz e 20 0 n)\<lparr>ball := ball_mk 20 300 0 0 (Some C)\<rparr>) (Tick t)
   = Some (rally 255 0 90 (e + 1) 450 5 (n + 1))"
  by (simp add: gameObserver_scan_def changeCpuScore_def changeScore_def defaultBallState2_def
      genericDefaultBall_def Math_round_def Let_def Constants_defs rally_createState)

lemma return_leg:
  assumes "310 < py" and "py < 590 - psz" and "n \<noteq> 7"
  shows "game_from (rally py 0 psz e 840 5 n) (tick # replicate 163 tick @ [tick])
         = Some ((rally py 0 psz e 20 0 n)\<lparr>ball := ball_mk 20 300 0 0 (Some C)\<rparr>)"
proof -
  have c: "gameObserver_scan 0 0 (rally py 0 psz e 840 5 n) (Tick 0)
         = Some (rally py 0 psz e 835 (- 5) n)"
    using assms by (intro rally_collision) auto
  have "\<forall>j<163. clear (py + real j * 0) 0 psz (835 + real j * (- 5)) (- 5)"
    using assms by (auto simp: clear_def)
  from rally_ticks [OF this assms(3), of e 0 0 0]
  have f: "game_from (rally py 0 psz e 835 (- 5) n) (replicate 163 tick)
         = Some (rally py 0 psz e 20 (- 5) n)"
    by (simp add: tick_def)
  have m: "gameObserver_scan 0 0 (rally py 0 psz e 20 (- 5) n) (Tick 0)
         = Some ((rally py 0 psz e 20 0 n)\<lparr>ball := ball_mk 20 300 0 0 (Some C)\<rparr>)"
    using assms by (intro rally_marker) auto
  show ?thesis
    using c m f by (simp add: game_from_append tick_def)
qed

lemma goalRun_concedes:
  assumes "n \<noteq> 7"
  shows "game_from (rally 255 0 90 e 450 5 n) goalRun = Some (rally 255 0 90 (e + 1) 450 5 (n + 1))"
proof -
  have s1: "gameObserver_scan 0 0 (rally 255 0 90 e 450 5 n) (Movement 5 0)
         = Some (rally 260 5 90 e 455 5 n)"
    using rally_step [of 255 5 90 450 5 n "Movement 5 0" 0 0 0 0 e] assms
    by (simp add: clear_def)
  have "\<forall>j<11. clear (260 + real j * 5) 5 90 (455 + real j * 5) 5"
    by (auto simp: clear_def)
  from rally_ticks [OF this assms, of e 0 0 0]
  have s2: "game_from (rally 260 5 90 e 455 5 n) (replicate 11 tick)
         = Some (rally 315 5 90 e 510 5 n)"
    by (simp add: tick_def)
  have s3: "gameObserver_scan 0 0 (rally 315 5 90 e 510 5 n) (Movement 0 0)
         = Some (rally 315 0 90 e 515 5 n)"
    using rally_step [of 315 0 90 510 5 n "Movement 0 0" 0 5 0 0 e] assms
    by (simp add: clear_def)
  have "\<forall>j<65. clear (315 + real j * 0) 0 90 (515 + real j * 5) 5"
    by (auto simp: clear_def)
  from rally_ticks [OF this assms, of e 0 0 0]
  have s4: "game_from (rally 315 0 90 e 515 5 n) (replicate 65 tick)
         = Some (rally 315 0 90 e 840 5 n)"
    by (simp add: tick_def)
  have s5: "game_from (rally 315 0 90 e 840 5 n) (tick # replicate 163 tick @ [tick])
         = Some ((rally 315 0 90 e 20 0 n)\<lparr>ball := ball_mk 20 300 0 0 (Some C)\<rparr>)"
    using assms by (intro return_leg) auto
  have s6: "game_from ((rally 315 0 90 e 20 0 n)\<lparr>ball := ball_mk 20 300 0 0 (Some C)\<rparr>) [tick]
         = Some (rally 255 0 90 (e + 1) 450 5 (n + 1))"
    by (simp add: tick_def conceded_goal)
  have a: "game_from (rally 315 0 90 e 840 5 n) (tick # replicate 163 tick @ [tick, tick])
         = Some (rally 255 0 90 (e + 1) 450 5 (n + 1))"
    using game_from_then [OF s5 s6] by simp
  have b: "game_from (rally 315 0 90 e 515 5 n)
             (replicate 65 tick @ tick # replicate 163 tick @ [tick, tick])
         = Some (rally 255 0 90 (e + 1) 450 5 (n + 1))"
    using game_from_then [OF s4 a] by simp
  have c: "game_from (rally 315 5 90 e 510 5 n)
             ((0, 0, Movement 0 0) # replicate 65 tick @ tick # replicate 163 tick @ [tick, tick])
         = Some (rally 255 0 90 (e + 1) 450 5 (n + 1))"
    using s3 b by simp
  have d: "game_from (rally 260 5 90 e 455 5 n)
             (replicate 11 tick @ (0, 0, Movement 0 0) # replicate 65 tick @ tick
                # replicate 163 tick @ [tick, tick])
         = Some (rally 255 0 90 (e + 1) 450 5 (n + 1))"
    using game_from_then [OF s2 c] by simp
  show ?thesis
    unfolding goalRun_def using s1 d by simp
qed

lemma goalRuns_concede:
  "n + int m \<le> 7 \<Longrightarrow> game_from (rally 255 0 90 e 450 5 n) (concat (replicate m goalRun))
     = Some (rally 255 0 90 (e + int m) 450 5 (n + int m))"
proof (induction m arbitrary: e n)
  case 0
  show ?case by simp
next
  case (Suc m)
  from Suc.prems have n: "n \<noteq> 7" and le: "(n + 1) + int m \<le> 7" by simp_all
  from goalRun_concedes [OF n, of e] Suc.IH [OF le, of "e + 1"] show ?case
    by (simp add: game_from_append algebra_simps)
qed

lemma admissible_tick [simp]: "admissible tick"
  by (simp add: tick_def draw_def)

lemma admissible_goalRun: "list_all admissible goalRun"
  by (simp add: goalRun_def draw_def list_all_iff Constants_defs)

lemma rally_grow:
  assumes "0 < e" and "20 < bx" and "bx < 880" and "0 \<le> bvx \<or> 60 < bx \<or> 310 < py"
    and "bvx \<le> 0 \<or> bx < 840"
  shows "gameObserver_scan r1 r2 (rally py pv psz e bx bvx n) (PaddleGrowth g)
         = Some (rally py pv (g + psz) (e - 1) (bx + bvx) bvx n)"
  using assms
  by (simp add: gameObserver_scan_def createStandardParseState_eq ball_flies ai_rests
      rally_createState)

lemma rally_teleport:
  assumes "0 < e" and "20 < bx" and "bx < 880" and "0 \<le> bvx \<or> 60 < bx \<or> 310 < py"
    and "bvx \<le> 0 \<or> bx < 840"
  shows "gameObserver_scan r1 r2 (rally py pv psz e bx bvx n) Teleport
         = Some (rally 300 0 psz (e - 1) (bx + bvx) bvx n)"
  using assms
  by (simp add: gameObserver_scan_def createStandardParseState_eq ball_flies ai_rests
      rally_createState)

lemma rally_shrink:
  assumes "0 < e" and "20 < bx" and "bx < 840"
  shows "gameObserver_scan r1 r2 ((rally py pv psz e bx 5 n)\<lparr>paddleTwo := aiPaddle 255 0 4 h\<rparr>)
           (PaddleShrink sz)
         = Some ((rally py pv psz (e - 1) (bx + 5) 5 n)\<lparr>paddleTwo := aiPaddle 255 0 4 (h - sz)\<rparr>)"
proof -
  have b: "movingBallState (ball_mk bx 300 5 0 None) (playerPaddle py pv e psz)
             (aiPaddle 255 0 4 h) r1 r2 = ball_mk (bx + 5) 300 5 0 None"
    using assms by (simp add: movingBallState_def Let_def Constants_defs)
  from assms(1) show ?thesis
    by (simp add: gameObserver_scan_def b rally_def createState_def)
qed

lemma rally_paddleTwo: "(rally py pv psz e bx bvx n)\<lparr>paddleTwo := aiPaddle 255 0 4 90\<rparr>
    = rally py pv psz e bx bvx n"
  by (simp add: rally_def)

lemma run_to_bottom:
  "game 0 0 ((0, 0, Movement 5 0) # replicate 48 tick) = Some (rally 500 5 90 4 695 5 0)"
proof -
  have s1: "gameObserver_scan 0 0 (rally 255 0 90 4 450 5 0) (Movement 5 0)
         = Some (rally 260 5 90 4 455 5 0)"
    using rally_step [of 255 5 90 450 5 0 "Movement 5 0" 0 0 0 0 4] by (simp add: clear_def)
  have "\<forall>j<48. clear (260 + real j * 5) 5 90 (455 + real j * 5) 5"
    by (auto simp: clear_def)
  from rally_ticks [OF this, of 0 4 0 0 0]
  have s2: "game_from (rally 260 5 90 4 455 5 0) (replicate 48 tick)
         = Some (rally 500 5 90 4 695 5 0)"
    by (simp add: tick_def)
  show ?thesis using s1 s2 by (simp add: game_def default_is_rally)
qed

lemma reachable_grown_at_bottom: "reachable (rally 500 5 120 3 700 5 0)"
proof -
  have r: "reachable (rally 500 5 90 4 695 5 0)"
    by (rule reachable_game [OF _ _ _ run_to_bottom])
       (simp_all add: draw_def list_all_iff Constants_defs)
  have g: "gameObserver_scan 0 0 (rally 500 5 90 4 695 5 0) (PaddleGrowth 30)
       = Some (rally 500 5 120 3 700 5 0)"
    using rally_grow [of 4 695 5 500 0 0 5 90 0 30] by simp
  show ?thesis
    by (rule reachable.step [OF r _ _ _ _ g]) (simp_all add: draw_def Constants_defs)
qed

lemma run_grow_teleport:
  "game 0 0 (concat (replicate 6 goalRun) @ replicate 7 (0, 0, PaddleGrowth 30))
     = Some (rally 255 0 300 3 485 5 6)"
proof -
  have a: "game_from (rally 255 0 90 4 450 5 0) (concat (replicate 6 goalRun))
     = Some (rally 255 0 90 10 450 5 6)"
    using goalRuns_concede [of 0 6 4] by simp
  have b: "game_from (rally 255 0 90 10 450 5 6) (replicate 7 (0, 0, PaddleGrowth 30))
     = Some (rally 255 0 300 3 485 5 6)"
    by (simp add: eval_nat_numeral rally_grow)
  from game_from_then [OF a b] show ?thesis by (simp add: game_def default_is_rally)
qed

lemma run_to_marker:
  "game 0 0 ((0, 0, Movement 5 0) # replicate 11 tick @ (0, 0, Movement 0 0)
       # replicate 4 (0, 0, PaddleGrowth 30) @ replicate 61 tick
       @ tick # replicate 163 tick @ [tick])
     = Some ((rally 315 0 210 0 20 0 0)\<lparr>ball := ball_mk 20 300 0 0 (Some C)\<rparr>)"
proof -
  have s1: "gameObserver_scan 0 0 (rally 255 0 90 4 450 5 0) (Movement 5 0)
         = Some (rally 260 5 90 4 455 5 0)"
    using rally_step [of 255 5 90 450 5 0 "Movement 5 0" 0 0 0 0 4] by (simp add: clear_def)
  have "\<forall>j<11. clear (260 + real j * 5) 5 90 (455 + real j * 5) 5"
    by (auto simp: clear_def)
  from rally_ticks [OF this, of 0 4 0 0 0]
  have s2: "game_from (rally 260 5 90 4 455 5 0) (replicate 11 tick)
         = Some (rally 315 5 90 4 510 5 0)"
    by (simp add: tick_def)
  have s3: "gameObserver_scan 0 0 (rally 315 5 90 4 510 5 0) (Movement 0 0)
         = Some (rally 315 0 90 4 515 5 0)"
    using rally_step [of 315 0 90 510 5 0 "Movement 0 0" 0 5 0 0 4] by (simp add: clear_def)
  have s4: "game_from (rally 315 0 90 4 515 5 0) (replicate 4 (0, 0, PaddleGrowth 30))
         = Some (rally 315 0 210 0 535 5 0)"
    by (simp add: eval_nat_numeral rally_grow)
  have "\<forall>j<61. clear (315 + real j * 0) 0 210 (535 + real j * 5) 5"
    by (auto simp: clear_def)
  from rally_ticks [OF this, of 0 0 0 0 0]
  have s5: "game_from (rally 315 0 210 0 535 5 0) (replicate 61 tick)
         = Some (rally 315 0 210 0 840 5 0)"
    by (simp add: tick_def)
  have s6: "game_from (rally 315 0 210 0 840 5 0) (tick # replicate 163 tick @ [tick])
         = Some ((rally 315 0 210 0 20 0 0)\<lparr>ball := ball_mk 20 300 0 0 (Some C)\<rparr>)"
    by (intro return_leg) auto
  have a: "game_from (rally 315 0 210 0 535 5 0)
             (replicate 61 tick @ tick # replicate 163 tick @ [tick])
         = Some ((rally 315 0 210 0 20 0 0)\<lparr>ball := ball_mk 20 300 0 0 (Some C)\<rparr>)"
    using game_from_then [OF s5 s6] by simp
  have b: "game_from (rally 315 0 90 4 515 5 0)
             (replicate 4 (0, 0, PaddleGrowth 30) @ replicate 61 tick
                @ tick # replicate 163 tick @ [tick])
         = Some ((rally 315 0 210 0 20 0 0)\<lparr>ball := ball_mk 20 300 0 0 (Some C)\<rparr>)"
    using game_from_then [OF s4 a] by simp
  have c: "game_from (rally 315 5 90 4 510 5 0)
             ((0, 0, Movement 0 0) # replicate 4 (0, 0, PaddleGrowth 30) @ replicate 61 tick
                @ tick # replicate 163 tick @ [tick])
         = Some ((rally 315 0 210 0 20 0 0)\<lparr>ball := ball_mk 20 300 0 0 (Some C)\<rparr>)"
    using s3 b by simp
  have d: "game_from (rally 260 5 90 4 455 5 0)
             (replicate 11 tick @ (0, 0, Movement 0 0) # replicate 4 (0, 0, PaddleGrowth 30)
                @ replicate 61 tick @ tick # replicate 163 tick @ [tick])
         = Some ((rally 315 0 210 0 20 0 0)\<lparr>ball := ball_mk 20 300 0 0 (Some C)\<rparr>)"
    using game_from_then [OF s2 c] by simp
  show ?thesis using s1 d by (simp add: game_def default_is_rally)
qed

lemma run_four_grows:
  "game 0 0 (replicate 4 (0, 0, PaddleGrowth 30)) = Some (rally 255 0 210 0 470 5 0)"
  by (simp add: game_def default_is_rally eval_nat_numeral rally_grow)

lemma run_two_goals: "game 0 0 (goalRun @ goalRun) = Some (rally 255 0 90 6 450 5 2)"
  using goalRuns_concede [of 0 2 4] by (simp add: game_def default_is_rally eval_nat_numeral)

lemma run_six_shrinks:
  "game 0 0 (goalRun @ goalRun @ replicate 6 (0, 0, PaddleShrink paddleShrinkAbility))
     = Some ((rally 255 0 90 0 480 5 2)\<lparr>paddleTwo := aiPaddle 255 0 4 0\<rparr>)"
proof -
  have "game_from ((rally 255 0 90 6 450 5 2)\<lparr>paddleTwo := aiPaddle 255 0 4 90\<rparr>)
          (replicate 6 (0, 0, PaddleShrink 15))
        = Some ((rally 255 0 90 0 480 5 2)\<lparr>paddleTwo := aiPaddle 255 0 4 0\<rparr>)"
    by (simp add: eval_nat_numeral rally_shrink)
  then have s: "game_from (rally 255 0 90 6 450 5 2) (replicate 6 (0, 0, PaddleShrink 15))
        = Some ((rally 255 0 90 0 480 5 2)\<lparr>paddleTwo := aiPaddle 255 0 4 0\<rparr>)"
    by (simp only: rally_paddleTwo)
  from run_two_goals have "game_from (rally 255 0 90 4 450 5 0) (goalRun @ goalRun)
        = Some (rally 255 0 90 6 450 5 2)"
    by (simp add: game_def default_is_rally)
  from game_from_then [OF this s] show ?thesis
    by (simp add: game_def default_is_rally paddleShrinkAbility_def)
qed

lemma run_seven_goals:
  "game 0 0 (concat (replicate 7 goalRun)) = Some (rally 255 0 90 11 450 5 7)"
  using goalRuns_concede [of 0 7 4] by (simp add: game_def default_is_rally)

lemma reachable_seven_goals: "reachable (rally 255 0 90 11 450 5 7)"
  by (rule reachable_game [OF _ _ _ run_seven_goals])
     (auto simp: draw_def list_all_iff admissible_goalRun [unfolded list_all_iff])

section \<open>The claims\<close>

subsection \<open>C1: paddle bounds\<close>

text \<open>
  \<^bold>\<open>C1\<close>, as stated, fails. The player presses the down key; 48 ticks later the paddle
  is on its bottom bound (position 500, height 90), and the growth key is pressed: the
  paddle keeps its position and grows to height 120, so that it reaches 30 pixels into the
  bottom wall.
  Likewise, after six goals of the cpu and seven growths (height 300, bound 290), a
  teleport puts the paddle at the ball's height 300. Both states are reached from the
  default state by events the stream emits.
\<close>

theorem ability_leaves_bounds:
  "game 0 0 ((0, 0, Movement 5 0) # replicate 48 tick) = Some (rally 500 5 90 4 695 5 0)
   \<and> reachable (rally 500 5 90 4 695 5 0)
   \<and> emitted (PaddleGrowth 30)
   \<and> gameObserver_scan 0 0 (rally 500 5 90 4 695 5 0) (PaddleGrowth 30)
       = Some (rally 500 5 120 3 700 5 0)
   \<and> \<not> paddleInBounds (paddleOne (rally 500 5 120 3 700 5 0))
   \<and> game 0 0 (concat (replicate 6 goalRun) @ replicate 7 (0, 0, PaddleGrowth 30))
       = Some (rally 255 0 300 3 485 5 6)
   \<and> reachable (rally 255 0 300 3 485 5 6)
   \<and> gameObserver_scan 0 0 (rally 255 0 300 3 485 5 6) Teleport
       = Some (rally 300 0 300 2 490 5 6)
   \<and> \<not> paddleInBounds (paddleOne (rally 300 0 300 2 490 5 6))"
proof -
  have r1: "reachable (rally 500 5 90 4 695 5 0)"
    by (rule reachable_game [OF _ _ _ run_to_bottom])
       (simp_all add: draw_def list_all_iff Constants_defs)
  have r2: "reachable (rally 255 0 300 3 485 5 6)"
    by (rule reachable_game [OF _ _ _ run_grow_teleport])
       (auto simp: draw_def list_all_iff Constants_defs admissible_goalRun [unfolded list_all_iff])
  have g: "gameObserver_scan 0 0 (rally 500 5 90 4 695 5 0) (PaddleGrowth 30)
       = Some (rally 500 5 120 3 700 5 0)"
    using rally_grow [of 4 695 5 500 0 0 5 90 0 30] by simp
  have t: "gameObserver_scan 0 0 (rally 255 0 300 3 485 5 6) Teleport
       = Some (rally 300 0 300 2 490 5 6)"
    using rally_teleport [of 3 485 5 255 0 0 0 300 6] by simp
  show ?thesis
    using r1 r2 g t run_to_bottom run_grow_teleport
    by (simp add: paddleInBounds_def Constants_defs)
qed

text \<open>
  \<^bold>\<open>C1\<close>, amended: in every reachable state the cpu's paddle is within
  \<open>[topBound, bottom wall - height]\<close>; and from every reachable state whose player paddle is
  within its bounds, every emitted event other than a growth or teleport arriving with
  energy yields a state in which both paddles are within their bounds.
\<close>

theorem paddle_bounds_preserved:
  assumes "reachable acc"
  shows "paddleInBounds (paddleTwo acc)
     \<and> (paddleInBounds (paddleOne acc) \<and> emitted s
          \<and> \<not> ((isPaddleGrowth s \<or> isTeleport s) \<and> numeric (playerEnergy acc) > 0)
        \<longrightarrow> (\<exists>out. gameObserver_scan r1 r2 acc s = Some out
               \<and> paddleInBounds (paddleOne out) \<and> paddleInBounds (paddleTwo out)))"
proof -
  from reachable_invariants [OF assms]
  have sync: "energy (paddleOne acc) = numeric (playerEnergy acc)"
    and ai: "paddleInBounds (paddleTwo acc)" by simp_all
  obtain out where out: "gameObserver_scan r1 r2 acc s = Some out"
    using gameObserver_scan_total by blast
  from ai sync out step_player_inBounds [of acc s r1 r2 out] step_ai_inBounds [of acc s r1 r2 out]
  show ?thesis by auto
qed

theorem paddle_bounds_preserved_witness:
  "reachable (rally 500 5 90 4 695 5 0)
   \<and> paddleInBounds (paddleOne (rally 500 5 90 4 695 5 0))
   \<and> emitted (Tick 0)
   \<and> \<not> ((isPaddleGrowth (Tick 0) \<or> isTeleport (Tick 0))
          \<and> numeric (playerEnergy (rally 500 5 90 4 695 5 0)) > 0)
   \<and> paddleInBounds (paddleTwo (rally 500 5 90 4 695 5 0))
   \<and> (\<exists>out. gameObserver_scan 0 0 (rally 500 5 90 4 695 5 0) (Tick 0) = Some out
          \<and> paddleInBounds (paddleOne out) \<and> paddleInBounds (paddleTwo out))"
proof -
  have r: "reachable (rally 500 5 90 4 695 5 0)"
    by (rule reachable_game [OF _ _ _ run_to_bottom])
       (simp_all add: draw_def list_all_iff Constants_defs)
  have h: "paddleInBounds (paddleOne (rally 500 5 90 4 695 5 0))" "emitted (Tick 0)"
    "\<not> ((isPaddleGrowth (Tick 0) \<or> isTeleport (Tick 0))
          \<and> numeric (playerEnergy (rally 500 5 90 4 695 5 0)) > 0)"
    by (simp_all add: paddleInBounds_def Constants_defs)
  from paddle_bounds_preserved [OF r, of "Tick 0" 0 0] r h show ?thesis by blast
qed

subsection \<open>C2: energy\<close>

text \<open>
  \<^bold>\<open>C2\<close>, as stated, fails in its second half. The player spends the four energy on
  growths and lets the ball pass; in the state where the ball carries the marker \<^verbatim>\<open>"c"\<close>
  the energy is 0, and a growth or teleport key pressed then is handled like a tick: the
  goal is counted and the energy becomes 1.
\<close>

theorem ability_without_energy_gains_energy:
  "game 0 0 ((0, 0, Movement 5 0) # replicate 11 tick @ (0, 0, Movement 0 0)
       # replicate 4 (0, 0, PaddleGrowth 30) @ replicate 61 tick
       @ tick # replicate 163 tick @ [tick])
     = Some ((rally 315 0 210 0 20 0 0)\<lparr>ball := ball_mk 20 300 0 0 (Some C)\<rparr>)
   \<and> reachable ((rally 315 0 210 0 20 0 0)\<lparr>ball := ball_mk 20 300 0 0 (Some C)\<rparr>)
   \<and> numeric (playerEnergy ((rally 315 0 210 0 20 0 0)\<lparr>ball := ball_mk 20 300 0 0 (Some C)\<rparr>)) = 0
   \<and> gameObserver_scan 0 0 ((rally 315 0 210 0 20 0 0)\<lparr>ball := ball_mk 20 300 0 0 (Some C)\<rparr>)
        (PaddleGrowth 30) = Some (rally 255 0 90 1 450 5 1)
   \<and> gameObserver_scan 0 0 ((rally 315 0 210 0 20 0 0)\<lparr>ball := ball_mk 20 300 0 0 (Some C)\<rparr>)
        Teleport = Some (rally 255 0 90 1 450 5 1)
   \<and> numeric (playerEnergy (rally 255 0 90 1 450 5 1)) = 1"
proof -
  let ?X = "(rally 315 0 210 0 20 0 0)\<lparr>ball := ball_mk 20 300 0 0 (Some C)\<rparr>"
  have r: "reachable ?X"
    by (rule reachable_game [OF _ _ _ run_to_marker])
       (simp_all add: draw_def list_all_iff Constants_defs)
  have g: "gameObserver_scan 0 0 ?X (PaddleGrowth 30) = Some (rally 255 0 90 1 450 5 1)"
    "gameObserver_scan 0 0 ?X Teleport = Some (rally 255 0 90 1 450 5 1)"
    by (simp_all add: gameObserver_scan_def changeCpuScore_def changeScore_def
        defaultBallState2_def genericDefaultBall_def Math_round_def Let_def Constants_defs
        rally_createState)
  from r g run_to_marker show ?thesis by simp
qed

text \<open>
  \<^bold>\<open>C2\<close>, amended: in every reachable state the player's energy (display and paddle)
  is at least 0. When it is 0, a growth and a teleport yield exactly the state that a tick
  yields, and a shrink ray yields the state of a key release (\<open>Movement 0\<close>) with the
  energy still 0 and the cpu's paddle at its height; unless the ball carries the marker
  \<^verbatim>\<open>"c"\<close> (whose goal adds one energy, as on a tick), growth and teleport leave the energy
  at 0.
\<close>

theorem energy_gate:
  assumes "reachable acc"
  shows "0 \<le> numeric (playerEnergy acc) \<and> 0 \<le> energy (paddleOne acc)
     \<and> (numeric (playerEnergy acc) = 0 \<longrightarrow>
          gameObserver_scan r1 r2 acc (PaddleGrowth g) = gameObserver_scan r1 r2 acc (Tick t)
        \<and> gameObserver_scan r1 r2 acc Teleport = gameObserver_scan r1 r2 acc (Tick t)
        \<and> gameObserver_scan r1 r2 acc (PaddleShrink sz)
            = createStandardParseState acc (Movement 0 0) 0 r1 r2
        \<and> (\<exists>out. gameObserver_scan r1 r2 acc (PaddleShrink sz) = Some out
              \<and> numeric (playerEnergy out) = 0 \<and> energy (paddleOne out) = 0
              \<and> ySize (paddleTwo out) = ySize (paddleTwo acc)
              \<and> paddleOne out = movingPaddleState playerPaddle (paddleOne acc) 0)
        \<and> (scoreUpdate (ball acc) \<noteq> Some C \<longrightarrow>
             (\<exists>out. gameObserver_scan r1 r2 acc (PaddleGrowth g) = Some out
                \<and> numeric (playerEnergy out) = 0 \<and> energy (paddleOne out) = 0)
           \<and> (\<exists>out. gameObserver_scan r1 r2 acc Teleport = Some out
                \<and> numeric (playerEnergy out) = 0 \<and> energy (paddleOne out) = 0)))"
proof -
  from reachable_invariants [OF assms]
  have sync: "energy (paddleOne acc) = numeric (playerEnergy acc)"
    and nn: "0 \<le> numeric (playerEnergy acc)" by simp_all
  have z: "numeric (playerEnergy acc) = 0 \<Longrightarrow>
      gameObserver_scan r1 r2 acc (PaddleGrowth g) = gameObserver_scan r1 r2 acc (Tick t)
    \<and> gameObserver_scan r1 r2 acc Teleport = gameObserver_scan r1 r2 acc (Tick t)
    \<and> gameObserver_scan r1 r2 acc (PaddleShrink sz)
        = createStandardParseState acc (Movement 0 0) 0 r1 r2"
    using sync
    by (simp add: gameObserver_scan_def createStandardParseState_eq createEndState_def)
  have sh: "numeric (playerEnergy acc) = 0 \<Longrightarrow>
      \<exists>out. gameObserver_scan r1 r2 acc (PaddleShrink sz) = Some out
         \<and> numeric (playerEnergy out) = 0 \<and> energy (paddleOne out) = 0
         \<and> ySize (paddleTwo out) = ySize (paddleTwo acc)
         \<and> paddleOne out = movingPaddleState playerPaddle (paddleOne acc) 0"
    using sync
    by (simp add: gameObserver_scan_def createStandardParseState_eq playerPaddle_def
        aiPaddle_def)
  have ab: "numeric (playerEnergy acc) = 0 \<Longrightarrow> scoreUpdate (ball acc) \<noteq> Some C \<Longrightarrow>
      \<exists>out. gameObserver_scan r1 r2 acc (Tick t) = Some out
         \<and> numeric (playerEnergy out) = 0 \<and> energy (paddleOne out) = 0"
    using sync
    by (simp add: gameObserver_scan_def createStandardParseState_eq createEndState_def
        playerPaddle_def)
  from sync nn z sh ab show ?thesis by auto
qed

theorem energy_gate_witness:
  "reachable (rally 255 0 210 0 470 5 0)
   \<and> numeric (playerEnergy (rally 255 0 210 0 470 5 0)) = 0
   \<and> scoreUpdate (ball (rally 255 0 210 0 470 5 0)) \<noteq> Some C
   \<and> gameObserver_scan 0 0 (rally 255 0 210 0 470 5 0) (PaddleGrowth 30)
       = gameObserver_scan 0 0 (rally 255 0 210 0 470 5 0) (Tick 0)
   \<and> gameObserver_scan 0 0 (rally 255 0 210 0 470 5 0) Teleport
       = gameObserver_scan 0 0 (rally 255 0 210 0 470 5 0) (Tick 0)
   \<and> (\<exists>out. gameObserver_scan 0 0 (rally 255 0 210 0 470 5 0) (PaddleShrink 15) = Some out
         \<and> numeric (playerEnergy out) = 0 \<and> energy (paddleOne out) = 0
         \<and> ySize (paddleTwo out) = ySize (paddleTwo (rally 255 0 210 0 470 5 0))
         \<and> paddleOne out
             = movingPaddleState playerPaddle (paddleOne (rally 255 0 210 0 470 5 0)) 0)
   \<and> (\<exists>out. gameObserver_scan 0 0 (rally 255 0 210 0 470 5 0) (PaddleGrowth 30) = Some out
         \<and> numeric (playerEnergy out) = 0 \<and> energy (paddleOne out) = 0)"
proof -
  let ?Z = "rally 255 0 210 0 470 5 0"
  have r: "reachable ?Z"
    by (rule reachable_game [OF _ _ _ run_four_grows])
       (simp_all add: draw_def list_all_iff Constants_defs)
  have h: "numeric (playerEnergy ?Z) = 0" "scoreUpdate (ball ?Z) \<noteq> Some C"
    by simp_all
  from energy_gate [OF r, of 0 0 30 0 15] r h
  show ?thesis by blast
qed

subsection \<open>C3: the winner\<close>

text \<open>
  \<^bold>\<open>C3\<close>, as stated, fails in its first half. After seven goals of the cpu its score
  is 7 and the winner marker of that state is still \<^verbatim>\<open>null\<close>. A growth key pressed next
  (the player has 11 energy) takes the ability branch, which precedes the test of the
  scores: the reducer's output has no winner and a moving ball.
\<close>

theorem win_delayed_by_ability:
  "game 0 0 (concat (replicate 7 goalRun)) = Some (rally 255 0 90 11 450 5 7)
   \<and> reachable (rally 255 0 90 11 450 5 7)
   \<and> numeric (scoreTwo (rally 255 0 90 11 450 5 7)) = winningScore
   \<and> parseInt (content (scoreTwo (rally 255 0 90 11 450 5 7))) = Some winningScore
   \<and> winnerIs (rally 255 0 90 11 450 5 7) = None
   \<and> emitted (PaddleGrowth 30)
   \<and> gameObserver_scan 0 0 (rally 255 0 90 11 450 5 7) (PaddleGrowth 30)
       = Some (rally 255 0 120 10 455 5 7)
   \<and> winnerIs (rally 255 0 120 10 455 5 7) = None
   \<and> xVel (ball (rally 255 0 120 10 455 5 7)) = 5"
proof -
  let ?X = "rally 255 0 90 11 450 5 7"
  have g: "gameObserver_scan 0 0 ?X (PaddleGrowth 30) = Some (rally 255 0 120 10 455 5 7)"
    using rally_grow [of 11 450 5 255 0 0 0 90 7 30] by simp
  from g run_seven_goals reachable_seven_goals show ?thesis
    by (simp add: Constants_defs)
qed

text \<open>
  \<^bold>\<open>C3\<close>, amended: in a state without winner whose ball carries no marker, an event
  that takes no ability branch (a tick, a movement, a growth or teleport without energy)
  yields, if the player's score reads 7, a state with the winner \<^verbatim>\<open>"p"\<close>, and otherwise, if
  the cpu's score reads 7, a state with the winner \<^verbatim>\<open>"c"\<close>; its ball rests (velocity
  \<open>(0, 0)\<close>) at the centre of the canvas, scores and energy display are unchanged. Whatever
  events follow, abilities included, the game stays in that state with its winner, until a
  restart begins again from the default state, which has no winner.
\<close>

theorem win_on_plain_event:
  assumes "scoreUpdate (ball acc) = None" and "winnerIs acc = None"
    and "\<not> abilityBranch acc s"
  shows "(parseInt (content (scoreOne acc)) = Some winningScore \<longrightarrow>
            (\<exists>out. gameObserver_scan r1 r2 acc s = Some out \<and> winnerIs out = Some P
               \<and> xVel (ball out) = 0 \<and> yVel (ball out) = 0
               \<and> xPos (ball out) = canvasRight / 2 \<and> yPos (ball out) = canvasBottom / 2
               \<and> scoreOne out = scoreOne acc \<and> scoreTwo out = scoreTwo acc
               \<and> playerEnergy out = playerEnergy acc
               \<and> (\<forall>es. game_from acc ((r1, r2, s) # es) = Some out)))
       \<and> (parseInt (content (scoreOne acc)) \<noteq> Some winningScore
            \<and> parseInt (content (scoreTwo acc)) = Some winningScore \<longrightarrow>
            (\<exists>out. gameObserver_scan r1 r2 acc s = Some out \<and> winnerIs out = Some C
               \<and> xVel (ball out) = 0 \<and> yVel (ball out) = 0
               \<and> xPos (ball out) = canvasRight / 2 \<and> yPos (ball out) = canvasBottom / 2
               \<and> scoreOne out = scoreOne acc \<and> scoreTwo out = scoreTwo acc
               \<and> playerEnergy out = playerEnergy acc
               \<and> (\<forall>es. game_from acc ((r1, r2, s) # es) = Some out)))
       \<and> winnerIs (defaultEverythingState r1 r2) = None"
proof -
  have w: "game_from acc ((r1, r2, s) # es) = Some out"
    if "gameObserver_scan r1 r2 acc s = Some out" "winnerIs out \<noteq> None" for out es
    using that assms(2) by (simp add: game_from_won)
  have p: "parseInt (content (scoreOne acc)) = Some winningScore \<Longrightarrow>
      gameObserver_scan r1 r2 acc s = Some (createEndState acc (Tick 0) (Some P) 0 0)"
    using assms(1,3) by (rule end_step(1))
  have c: "parseInt (content (scoreOne acc)) \<noteq> Some winningScore \<Longrightarrow>
      parseInt (content (scoreTwo acc)) = Some winningScore \<Longrightarrow>
      gameObserver_scan r1 r2 acc s = Some (createEndState acc (Tick 0) (Some C) 0 0)"
    using assms(1,3) by (rule end_step(2))
  have d: "winnerIs (defaultEverythingState r1 r2) = None"
    by (simp add: defaultEverythingState_def)
  show ?thesis
  proof (intro conjI impI)
    assume a: "parseInt (content (scoreOne acc)) = Some winningScore"
    let ?E = "createEndState acc (Tick 0) (Some P) 0 0"
    from w [OF p [OF a]] have "\<forall>es. game_from acc ((r1, r2, s) # es) = Some ?E" by simp
    with p [OF a] show "\<exists>out. gameObserver_scan r1 r2 acc s = Some out \<and> winnerIs out = Some P
               \<and> xVel (ball out) = 0 \<and> yVel (ball out) = 0
               \<and> xPos (ball out) = canvasRight / 2 \<and> yPos (ball out) = canvasBottom / 2
               \<and> scoreOne out = scoreOne acc \<and> scoreTwo out = scoreTwo acc
               \<and> playerEnergy out = playerEnergy acc
               \<and> (\<forall>es. game_from acc ((r1, r2, s) # es) = Some out)"
      by (simp add: Constants_defs)
  next
    assume a: "parseInt (content (scoreOne acc)) \<noteq> Some winningScore
            \<and> parseInt (content (scoreTwo acc)) = Some winningScore"
    let ?E = "createEndState acc (Tick 0) (Some C) 0 0"
    from a have e: "gameObserver_scan r1 r2 acc s = Some ?E" using c by blast
    from w [OF e] have "\<forall>es. game_from acc ((r1, r2, s) # es) = Some ?E" by simp
    with e show "\<exists>out. gameObserver_scan r1 r2 acc s = Some out \<and> winnerIs out = Some C
               \<and> xVel (ball out) = 0 \<and> yVel (ball out) = 0
               \<and> xPos (ball out) = canvasRight / 2 \<and> yPos (ball out) = canvasBottom / 2
               \<and> scoreOne out = scoreOne acc \<and> scoreTwo out = scoreTwo acc
               \<and> playerEnergy out = playerEnergy acc
               \<and> (\<forall>es. game_from acc ((r1, r2, s) # es) = Some out)"
      by (simp add: Constants_defs)
  next
    show "winnerIs (defaultEverythingState r1 r2) = None" by (rule d)
  qed
qed

theorem win_on_plain_event_witness:
  "reachable (rally 255 0 90 11 450 5 7)
   \<and> scoreUpdate (ball (rally 255 0 90 11 450 5 7)) = None
   \<and> winnerIs (rally 255 0 90 11 450 5 7) = None
   \<and> \<not> abilityBranch (rally 255 0 90 11 450 5 7) (Tick 0)
   \<and> parseInt (content (scoreOne (rally 255 0 90 11 450 5 7))) \<noteq> Some winningScore
   \<and> parseInt (content (scoreTwo (rally 255 0 90 11 450 5 7))) = Some winningScore
   \<and> (\<exists>out. gameObserver_scan 0 0 (rally 255 0 90 11 450 5 7) (Tick 0) = Some out
         \<and> winnerIs out = Some C \<and> xVel (ball out) = 0 \<and> yVel (ball out) = 0
         \<and> xPos (ball out) = canvasRight / 2 \<and> yPos (ball out) = canvasBottom / 2
         \<and> scoreTwo out = scoreTwo (rally 255 0 90 11 450 5 7)
         \<and> game_from (rally 255 0 90 11 450 5 7)
              [(0, 0, Tick 0), (0, 0, PaddleGrowth 30), (0, 0, Teleport),
               (0, 0, PaddleShrink 15), (0, 0, Movement 5 0)] = Some out)"
proof -
  let ?X = "rally 255 0 90 11 450 5 7"
  have h1: "scoreUpdate (ball ?X) = None" and h2: "winnerIs ?X = None" by simp_all
  have h3: "\<not> abilityBranch ?X (Tick 0)" by (simp add: abilityBranch_def)
  have h4: "parseInt (content (scoreOne ?X)) \<noteq> Some winningScore"
    "parseInt (content (scoreTwo ?X)) = Some winningScore"
    by (simp_all add: winningScore_def)
  from win_on_plain_event [OF h1 h2 h3, of 0 0] h4
  obtain out where o: "gameObserver_scan 0 0 ?X (Tick 0) = Some out" "winnerIs out = Some C"
    "xVel (ball out) = 0" "yVel (ball out) = 0" "xPos (ball out) = canvasRight / 2"
    "yPos (ball out) = canvasBottom / 2" "scoreTwo out = scoreTwo ?X"
    "\<forall>es. game_from ?X ((0, 0, Tick 0) # es) = Some out"
    by blast
  from o(8) have g: "game_from ?X [(0, 0, Tick 0), (0, 0, PaddleGrowth 30), (0, 0, Teleport),
               (0, 0, PaddleShrink 15), (0, 0, Movement 5 0)] = Some out"
    by blast
  from reachable_seven_goals h1 h2 h3 h4 o(1-7) g show ?thesis by blast
qed

subsection \<open>C4 and C5: goals\<close>

text \<open>
  \<^bold>\<open>C4\<close>, as stated, fails: after a goal of the player the reducer serves the ball
  with \<^verbatim>\<open>defaultBallState1\<close>, whose horizontal velocity is \<open>-5\<close>: the ball leaves the
  centre towards the player's paddle (at \<open>x = 30\<close>), not towards the cpu's (at \<open>x = 850\<close>).
\<close>

theorem player_scored_ball_heads_to_player:
  "gameObserver_scan 0 0
     ((defaultEverythingState 0 0)\<lparr>ball := ball_mk 880 300 0 0 (Some P)\<rparr>) (Tick 0)
   = Some (createState (playerPaddle 255 0 4 90) (aiPaddle 255 0 4 90)
             (ball_mk 450 300 (- 5) 0 None) (playerScore 1) (aiScore 0) (playerEnergy_mk 4) None)
   \<and> \<not> 0 < xVel (ball_mk 450 300 (- 5) 0 None)
   \<and> xPos (ball_mk 450 300 (- 5) 0 None) + xVel (ball_mk 450 300 (- 5) 0 None) < 450
   \<and> xPos (playerPaddle 255 0 4 90) < 450 \<and> 450 < xPos (aiPaddle 255 0 4 90)"
  by (simp add: gameObserver_scan_def defaultEverythingState_def defaultBallState1_def
      genericDefaultBall_def Math_round_def changePlayerScore_def changeScore_def
      defaultPlayerScoreState_def defaultCPUScoreState_def defaultPlayerEnergyState_def
      playerScore_def aiScore_def playerPaddle_def aiPaddle_def Constants_defs)

text \<open>
  \<^bold>\<open>C4\<close>, amended: when the ball carries the marker \<^verbatim>\<open>"p"\<close>, the event takes no
  ability branch and the player's paddle has the energy that the display shows (as in every
  reachable state), the step returns a state in which both paddles are the default paddles
  with their previous energy, the ball is at the centre and moves towards the player
  (horizontal velocity \<open>-5\<close>) with a freshly drawn vertical velocity, the player's score is
  one more, and the cpu's score and the energy are unchanged.
\<close>

theorem player_scored_step:
  assumes "scoreUpdate (ball acc) = Some P" and "\<not> abilityBranch acc s"
    and "energy (paddleOne acc) = numeric (playerEnergy acc)"
  shows "\<exists>out. gameObserver_scan r1 r2 acc s = Some out
      \<and> paddleOne out = defaultPlayerPaddleState\<lparr>energy := energy (paddleOne acc)\<rparr>
      \<and> paddleTwo out = defaultAiPaddleState\<lparr>energy := energy (paddleTwo acc)\<rparr>
      \<and> ball out = defaultBallState1 r1 r2
      \<and> xPos (ball out) = canvasRight / 2 \<and> yPos (ball out) = canvasBottom / 2
      \<and> xVel (ball out) = - ballBaseXSpeed
      \<and> yVel (ball out) = Math_round (if r1 > 1 / 2 then ballBaseYSpeed * r2 / 2
                                        else - ballBaseYSpeed * r2 / 3)
      \<and> numeric (scoreOne out) = numeric (scoreOne acc) + 1
      \<and> content (scoreOne out) = toString (numeric (scoreOne acc) + 1)
      \<and> scoreTwo out = scoreTwo acc
      \<and> numeric (playerEnergy out) = numeric (playerEnergy acc)
      \<and> winnerIs out = None"
  using assms
  by (auto simp: gameObserver_scan_def abilityBranch_def changePlayerScore_def changeScore_def
      defaultBallState1_def)
     (simp_all add: genericDefaultBall_def defaultPlayerPaddleState_def defaultAiPaddleState_def
       createDefaultPaddleState_def playerPaddle_def aiPaddle_def genericPaddle_def
       halfway_def Constants_defs)

theorem player_scored_step_witness:
  "scoreUpdate (ball ((defaultEverythingState 0 0)\<lparr>ball := ball_mk 880 300 0 0 (Some P)\<rparr>))
     = Some P
   \<and> \<not> abilityBranch ((defaultEverythingState 0 0)\<lparr>ball := ball_mk 880 300 0 0 (Some P)\<rparr>)
         (Tick 0)
   \<and> energy (paddleOne ((defaultEverythingState 0 0)\<lparr>ball := ball_mk 880 300 0 0 (Some P)\<rparr>))
       = numeric (playerEnergy
           ((defaultEverythingState 0 0)\<lparr>ball := ball_mk 880 300 0 0 (Some P)\<rparr>))
   \<and> (\<exists>out. gameObserver_scan (3 / 4) (1 / 2)
                ((defaultEverythingState 0 0)\<lparr>ball := ball_mk 880 300 0 0 (Some P)\<rparr>) (Tick 0)
              = Some out
         \<and> xVel (ball out) = - 5 \<and> yVel (ball out) = 2
         \<and> numeric (scoreOne out) = 1 \<and> numeric (playerEnergy out) = 4)"
proof -
  let ?X = "(defaultEverythingState 0 0)\<lparr>ball := ball_mk 880 300 0 0 (Some P)\<rparr>"
  have h1: "scoreUpdate (ball ?X) = Some P" by simp
  have h2: "\<not> abilityBranch ?X (Tick 0)" by (simp add: abilityBranch_def)
  have h3: "energy (paddleOne ?X) = numeric (playerEnergy ?X)"
    by (simp add: defaultEverythingState_def defaultPlayerEnergyState_def startingEnergy_def)
  have v: "numeric (scoreOne ?X) = 0" "numeric (playerEnergy ?X) = 4"
    by (simp_all add: defaultEverythingState_def defaultPlayerScoreState_def
        defaultPlayerEnergyState_def startingEnergy_def)
  have m: "Math_round (if (3 / 4 :: real) > 1 / 2 then ballBaseYSpeed * (1 / 2) / 2
                       else - ballBaseYSpeed * (1 / 2) / 3) = 2"
    by (simp add: Math_round_def ballBaseYSpeed_def)
  from player_scored_step [OF h1 h2 h3, of "3 / 4" "1 / 2"] h1 h2 h3 v m show ?thesis
    by (auto simp: ballBaseXSpeed_def)
qed

text \<open>
  \<^bold>\<open>C5\<close>: when the ball carries the marker \<^verbatim>\<open>"c"\<close> and the event takes no ability
  branch, the step returns a state in which the cpu's score is one more, the player's
  energy (display and paddle) is one more than the displayed energy before, and the cpu's
  paddle keeps its energy.
\<close>

theorem cpu_scored_step:
  assumes "scoreUpdate (ball acc) = Some C" and "\<not> abilityBranch acc s"
  shows "\<exists>out. gameObserver_scan r1 r2 acc s = Some out
      \<and> numeric (scoreTwo out) = numeric (scoreTwo acc) + 1
      \<and> content (scoreTwo out) = toString (numeric (scoreTwo acc) + 1)
      \<and> scoreOne out = scoreOne acc
      \<and> numeric (playerEnergy out) = numeric (playerEnergy acc) + 1
      \<and> energy (paddleOne out) = numeric (playerEnergy acc) + 1
      \<and> energy (paddleTwo out) = energy (paddleTwo acc)"
  using assms
  by (auto simp: gameObserver_scan_def abilityBranch_def changeCpuScore_def changeScore_def)

theorem cpu_scored_step_witness:
  "reachable ((rally 315 0 210 0 20 0 0)\<lparr>ball := ball_mk 20 300 0 0 (Some C)\<rparr>)
   \<and> scoreUpdate (ball ((rally 315 0 210 0 20 0 0)\<lparr>ball := ball_mk 20 300 0 0 (Some C)\<rparr>))
       = Some C
   \<and> \<not> abilityBranch ((rally 315 0 210 0 20 0 0)\<lparr>ball := ball_mk 20 300 0 0 (Some C)\<rparr>)
         (Tick 0)
   \<and> (\<exists>out. gameObserver_scan 0 0
                ((rally 315 0 210 0 20 0 0)\<lparr>ball := ball_mk 20 300 0 0 (Some C)\<rparr>) (Tick 0)
              = Some out
         \<and> numeric (scoreTwo out) = 1 \<and> numeric (playerEnergy out) = 1
         \<and> energy (paddleOne out) = 1 \<and> energy (paddleTwo out) = 4)"
proof -
  let ?X = "(rally 315 0 210 0 20 0 0)\<lparr>ball := ball_mk 20 300 0 0 (Some C)\<rparr>"
  have r: "reachable ?X"
    by (rule reachable_game [OF _ _ _ run_to_marker])
       (simp_all add: draw_def list_all_iff Constants_defs)
  have h1: "scoreUpdate (ball ?X) = Some C" by simp
  have h2: "\<not> abilityBranch ?X (Tick 0)" by (simp add: abilityBranch_def)
  have v: "numeric (scoreTwo ?X) = 0" "numeric (playerEnergy ?X) = 0"
    "energy (paddleTwo ?X) = 4" by simp_all
  from cpu_scored_step [OF h1 h2, of 0 0] r h1 h2 v show ?thesis by auto
qed

subsection \<open>C6 and C7: the ball\<close>

text \<open>
  \<^bold>\<open>C6\<close>, as stated, fails for the horizontal coordinate: a ball at \<open>(450, 15)\<close> with
  velocity \<open>(5, -3)\<close> touches the top wall while moving into it; the step puts it at
  \<open>x = 455\<close>, its position plus the horizontal velocity, not at \<open>445\<close>.
\<close>

theorem wall_bounce_advances_horizontally:
  "sideBound < xPos (ball_mk 450 15 5 (- 3) None) - radius (ball_mk 450 15 5 (- 3) None)
   \<and> xPos (ball_mk 450 15 5 (- 3) None) + radius (ball_mk 450 15 5 (- 3) None)
       < canvasRight - sideBound
   \<and> yPos (ball_mk 450 15 5 (- 3) None) - radius (ball_mk 450 15 5 (- 3) None) \<le> topBound
   \<and> yVel (ball_mk 450 15 5 (- 3) None) < 0
   \<and> movingBallState (ball_mk 450 15 5 (- 3) None) defaultPlayerPaddleState
        defaultAiPaddleState 0 0 = ball_mk 455 18 5 3 None
   \<and> xPos (ball_mk 455 18 5 3 None)
       \<noteq> xPos (ball_mk 450 15 5 (- 3) None) - xVel (ball_mk 450 15 5 (- 3) None)"
  by (simp add: movingBallState_def Let_def Constants_defs)

text \<open>
  \<^bold>\<open>C6\<close>, amended: for a ball that touches the top or bottom wall while moving into it
  and touches no side wall, the step negates the vertical velocity, subtracts the vertical
  velocity from the vertical position, keeps the horizontal velocity and advances the
  horizontal position by it.
\<close>

theorem wall_bounce:
  assumes "sideBound < xPos b - radius b" and "xPos b + radius b < canvasRight - sideBound"
    and "(yPos b - radius b \<le> topBound \<and> yVel b < 0)
         \<or> (yPos b + radius b \<ge> canvasBottom - bottomBound \<and> yVel b > 0)"
  shows "yVel (movingBallState b player cpu r1 r2) = - yVel b
       \<and> yPos (movingBallState b player cpu r1 r2) = yPos b - yVel b
       \<and> xVel (movingBallState b player cpu r1 r2) = xVel b
       \<and> xPos (movingBallState b player cpu r1 r2) = xPos b + xVel b
       \<and> scoreUpdate (movingBallState b player cpu r1 r2) = None"
  by (simp add: movingBallState_wall [OF assms])

theorem wall_bounce_witness:
  "sideBound < xPos (ball_mk 450 15 5 (- 3) None) - radius (ball_mk 450 15 5 (- 3) None)
   \<and> xPos (ball_mk 450 15 5 (- 3) None) + radius (ball_mk 450 15 5 (- 3) None)
       < canvasRight - sideBound
   \<and> yPos (ball_mk 450 15 5 (- 3) None) - radius (ball_mk 450 15 5 (- 3) None) \<le> topBound
   \<and> yVel (ball_mk 450 15 5 (- 3) None) < 0
   \<and> yVel (movingBallState (ball_mk 450 15 5 (- 3) None)
             defaultPlayerPaddleState defaultAiPaddleState 0 0) = 3
   \<and> yPos (movingBallState (ball_mk 450 15 5 (- 3) None)
             defaultPlayerPaddleState defaultAiPaddleState 0 0) = 18
   \<and> xVel (movingBallState (ball_mk 450 15 5 (- 3) None)
             defaultPlayerPaddleState defaultAiPaddleState 0 0) = 5
   \<and> xPos (movingBallState (ball_mk 450 15 5 (- 3) None)
             defaultPlayerPaddleState defaultAiPaddleState 0 0) = 455"
proof -
  let ?b = "ball_mk 450 15 5 (- 3) None"
  have h1: "sideBound < xPos ?b - radius ?b" by (simp add: Constants_defs)
  have h2: "xPos ?b + radius ?b < canvasRight - sideBound" by (simp add: Constants_defs)
  have h3: "(yPos ?b - radius ?b \<le> topBound \<and> yVel ?b < 0)
            \<or> (yPos ?b + radius ?b \<ge> canvasBottom - bottomBound \<and> yVel ?b > 0)"
    by (simp add: Constants_defs)
  from wall_bounce [OF h1 h2 h3, of defaultPlayerPaddleState defaultAiPaddleState 0 0] h1 h2
  show ?thesis by (simp add: Constants_defs)
qed

text \<open>
  \<^bold>\<open>C7\<close>, as stated, fails: the player's paddle spans \<open>x \<in> [30, 50]\<close>, the left edge of a
  ball at the centre is at \<open>x = 440\<close>. The ball does not touch the paddle and flies on with
  horizontal velocity \<open>-5\<close>.
\<close>

theorem centre_ball_misses_paddle:
  "yPos (playerPaddle 255 0 4 90) = 255
   \<and> yPos (playerPaddle 255 0 4 90) + ySize (playerPaddle 255 0 4 90) = 345
   \<and> movingBallState (ball_mk 450 300 (- 5) 0 None) (playerPaddle 255 0 4 90)
        (aiPaddle 255 0 4 90) (1 / 2) (1 / 2) = ball_mk 445 300 (- 5) 0 None
   \<and> xVel (ball_mk 445 300 (- 5) 0 None) \<noteq> 5"
  by (simp add: movingBallState_def Let_def playerPaddle_def aiPaddle_def Constants_defs)

text \<open>
  \<^bold>\<open>C7\<close>, amended: for a ball at height 300 with velocity \<open>(-5, 0)\<close> that touches no
  side wall and whose left edge lies on the horizontal span of the player's paddle (for the
  game's paddle: ball centre \<open>x \<in> [40, 60]\<close>), the paddle spanning \<open>y \<in> [255, 345]\<close>, the step
  returns horizontal velocity \<open>+5\<close> and the vertical velocity
  \<open>ballBaseYSpeed * r2 + |300 - 300| / 8\<close>.
\<close>

theorem paddle_hit_reflects:
  assumes "xPos player \<le> bx - ballRadius" and "bx - ballRadius \<le> xPos player + xSize player"
    and "yPos player = 255" and "ySize player = 90"
    and "sideBound < bx - ballRadius" and "bx + ballRadius < canvasRight - sideBound"
  shows "movingBallState (ball_mk bx 300 (- 5) 0 None) player cpu r1 r2
         = ball_mk (bx + 5) (300 + ballBaseYSpeed * r1) 5 (ballBaseYSpeed * r2) None"
  using assms
  by (simp add: movingBallState_def calculateBallVel_def Let_def Constants_defs)

theorem paddle_hit_reflects_witness:
  "xPos (playerPaddle 255 0 4 90) \<le> 55 - ballRadius
   \<and> 55 - ballRadius \<le> xPos (playerPaddle 255 0 4 90) + xSize (playerPaddle 255 0 4 90)
   \<and> yPos (playerPaddle 255 0 4 90) = 255 \<and> ySize (playerPaddle 255 0 4 90) = 90
   \<and> sideBound < 55 - ballRadius \<and> 55 + ballRadius < canvasRight - sideBound
   \<and> xVel (movingBallState (ball_mk 55 300 (- 5) 0 None) (playerPaddle 255 0 4 90)
             defaultAiPaddleState (1 / 2) (1 / 4)) = 5
   \<and> yVel (movingBallState (ball_mk 55 300 (- 5) 0 None) (playerPaddle 255 0 4 90)
             defaultAiPaddleState (1 / 2) (1 / 4)) = 2"
proof -
  let ?p = "playerPaddle 255 0 4 90"
  have h: "xPos ?p \<le> 55 - ballRadius" "55 - ballRadius \<le> xPos ?p + xSize ?p"
    "yPos ?p = 255" "ySize ?p = 90"
    "sideBound < 55 - ballRadius" "55 + ballRadius < canvasRight - sideBound"
    by (simp_all add: Constants_defs)
  from paddle_hit_reflects [OF h, of defaultAiPaddleState "1 / 2" "1 / 4"] h
  show ?thesis by (simp add: Constants_defs)
qed

subsection \<open>C8, C9 and C10: the paddle\<close>

text \<open>
  \<^bold>\<open>C8\<close>, as stated, fails in its general rule. The paddle grown at the bottom bound
  (position 500, height 120, bound 470; a reachable state) that receives \<open>Movement 5\<close> has a
  candidate position beyond the bound and moves further into it: it is stopped, but held
  at 500, not put on the bound. The claim's own paddle at position 0 is held at 0, above
  the top bound 10; and a paddle at position 0 as tall as the field (height 590) is put on
  the top bound 10.
\<close>

theorem held_beyond_boundary:
  "reachable (rally 500 5 120 3 700 5 0)
   \<and> paddleOne (rally 500 5 120 3 700 5 0) = playerPaddle 500 5 3 120
   \<and> (5 :: real) > 0
   \<and> yPos (playerPaddle 500 5 3 120) + 5
        > canvasBottom - bottomBound - ySize (playerPaddle 500 5 3 120)
   \<and> makePaddleState playerPaddle (playerPaddle 500 5 3 120) (Movement 5 0)
        (Some (ball (rally 500 5 120 3 700 5 0)))
       = Some (playerPaddle 500 0 3 120)
   \<and> yPos (playerPaddle 500 0 3 120)
        \<noteq> canvasBottom - bottomBound - ySize (playerPaddle 500 5 3 120)
   \<and> makePaddleState playerPaddle (playerPaddle 0 0 4 90) (Movement (- 5) 0) None
       = Some (playerPaddle 0 0 4 90)
   \<and> yPos (playerPaddle 0 0 4 90) \<noteq> topBound
   \<and> makePaddleState playerPaddle (playerPaddle 0 0 4 590) (Movement (- 5) 0) None
       = Some (playerPaddle 10 0 4 590)
   \<and> yPos (playerPaddle 10 0 4 590) \<noteq> 0"
  using reachable_grown_at_bottom
  by (simp add: movingPaddleState_def playerPaddle_def genericPaddle_def Let_def
      Constants_defs)

text \<open>
  \<^bold>\<open>C8\<close>, amended: a paddle at position 0 of a height below 590 that receives
  \<open>Movement (-5)\<close> is returned at position 0 with velocity 0. In general, when the candidate
  position crosses a boundary in the direction of the move, the velocity is set to 0 and
  the paddle is put on that boundary, unless it already is at or beyond that boundary
  (and short of the opposite bound): then it is held where it is.
\<close>

theorem move_into_boundary_clamps:
  "(yPos prev = 0 \<and> ySize prev < 590 \<longrightarrow>
      (\<exists>out. makePaddleState (genericPaddle xp w) prev (Movement (- 5) x) b = Some out
         \<and> yPos out = 0 \<and> yVel out = 0))
   \<and> (vel < 0 \<and> yPos prev + vel < topBound \<longrightarrow>
      (\<exists>out. makePaddleState (genericPaddle xp w) prev (Movement vel x) b = Some out
         \<and> yVel out = 0
         \<and> yPos out = (if yPos prev \<le> topBound
                           \<and> yPos prev < canvasBottom - bottomBound - ySize prev
                        then yPos prev else topBound)))
   \<and> (vel > 0 \<and> yPos prev + vel > canvasBottom - bottomBound - ySize prev \<longrightarrow>
      (\<exists>out. makePaddleState (genericPaddle xp w) prev (Movement vel x) b = Some out
         \<and> yVel out = 0
         \<and> yPos out = (if yPos prev \<ge> canvasBottom - bottomBound - ySize prev
                           \<and> yPos prev > topBound
                        then yPos prev else canvasBottom - bottomBound - ySize prev)))"
  by (auto simp: makePaddleState_def movingPaddleState_def Let_def Constants_defs)

theorem move_into_boundary_clamps_witness:
  "yPos (playerPaddle 0 0 4 90) = 0 \<and> ySize (playerPaddle 0 0 4 90) < 590
   \<and> (- 5 :: real) < 0 \<and> yPos (playerPaddle 0 0 4 90) + (- 5) < topBound
   \<and> (\<exists>out. makePaddleState playerPaddle (playerPaddle 0 0 4 90) (Movement (- 5) 0) None
              = Some out \<and> yPos out = 0 \<and> yVel out = 0)
   \<and> (5 :: real) > 0
   \<and> yPos (playerPaddle 498 5 4 90) + 5
        > canvasBottom - bottomBound - ySize (playerPaddle 498 5 4 90)
   \<and> (\<exists>out. makePaddleState playerPaddle (playerPaddle 498 5 4 90) (Movement 5 0) None
              = Some out \<and> yPos out = 500 \<and> yVel out = 0)"
proof -
  have h: "yPos (playerPaddle 0 0 4 90) = 0 \<and> ySize (playerPaddle 0 0 4 90) < 590"
    "(- 5 :: real) < 0 \<and> yPos (playerPaddle 0 0 4 90) + (- 5) < topBound"
    "(5 :: real) > 0 \<and> yPos (playerPaddle 498 5 4 90) + 5
        > canvasBottom - bottomBound - ySize (playerPaddle 498 5 4 90)"
    by (simp_all add: playerPaddle_def Constants_defs)
  from h
    move_into_boundary_clamps [of "playerPaddle 0 0 4 90" "sideBound + 20" paddleXWidth 0 None "- 5"]
    move_into_boundary_clamps [of "playerPaddle 498 5 4 90" "sideBound + 20" paddleXWidth 0 None 5]
  show ?thesis
    by (auto simp: playerPaddle_def genericPaddle_def Constants_defs)
qed

text \<open>
  \<^bold>\<open>C9\<close>: a shrink action reduces the height of the paddle it is applied to by exactly
  its amount, whatever the paddle's energy and height. After two goals of the cpu the
  player has six energy; six shrink rays, each paid with one energy, bring the cpu's paddle
  from height 90 to height 0.
\<close>

theorem shrink_has_no_floor:
  "(\<forall>person prev sz b. makePaddleState person prev (PaddleShrink sz) b
        = Some (person (yPos prev) (yVel prev) (energy prev) (ySize prev - sz)))
   \<and> list_all admissible (goalRun @ goalRun @ replicate 6 (0, 0, PaddleShrink paddleShrinkAbility))
   \<and> game 0 0 (goalRun @ goalRun) = Some (rally 255 0 90 6 450 5 2)
   \<and> numeric (playerEnergy (rally 255 0 90 6 450 5 2)) = 6
   \<and> ySize (paddleTwo (rally 255 0 90 6 450 5 2)) = paddleYWidth
   \<and> game 0 0 (goalRun @ goalRun @ replicate 6 (0, 0, PaddleShrink paddleShrinkAbility))
       = Some ((rally 255 0 90 0 480 5 2)\<lparr>paddleTwo := aiPaddle 255 0 4 0\<rparr>)
   \<and> reachable ((rally 255 0 90 0 480 5 2)\<lparr>paddleTwo := aiPaddle 255 0 4 0\<rparr>)
   \<and> numeric (playerEnergy ((rally 255 0 90 0 480 5 2)\<lparr>paddleTwo := aiPaddle 255 0 4 0\<rparr>)) = 0
   \<and> ySize (paddleTwo ((rally 255 0 90 0 480 5 2)\<lparr>paddleTwo := aiPaddle 255 0 4 0\<rparr>)) = 0"
proof -
  have a: "list_all admissible
      (goalRun @ goalRun @ replicate 6 (0, 0, PaddleShrink paddleShrinkAbility))"
    using admissible_goalRun by (simp add: draw_def list_all_iff)
  have r: "reachable ((rally 255 0 90 0 480 5 2)\<lparr>paddleTwo := aiPaddle 255 0 4 0\<rparr>)"
    by (rule reachable_game [OF _ _ a run_six_shrinks]) (simp_all add: draw_def)
  from a r run_two_goals run_six_shrinks show ?thesis
    by (simp add: paddleYWidth_def)
qed

theorem shrink_has_no_floor_witness:
  "makePaddleState aiPaddle (aiPaddle 255 0 0 15) (PaddleShrink 15) None
     = Some (aiPaddle 255 0 0 0)
   \<and> makePaddleState aiPaddle (aiPaddle 255 0 0 0) (PaddleShrink 15) None
     = Some (aiPaddle 255 0 0 (- 15))"
  using shrink_has_no_floor by simp

text \<open>
  \<^bold>\<open>C10\<close>: a teleport with energy available (on the display and in the paddle) returns a
  state whose player paddle has the ball's vertical position and the ball's vertical
  velocity, one energy less and the same height.
\<close>

theorem teleport_applied:
  assumes "numeric (playerEnergy acc) > 0" and "energy (paddleOne acc) > 0"
  shows "\<exists>out. gameObserver_scan r1 r2 acc Teleport = Some out
      \<and> paddleOne out = playerPaddle (yPos (ball acc)) (yVel (ball acc))
                          (energy (paddleOne acc) - 1) (ySize (paddleOne acc))
      \<and> yPos (paddleOne out) = yPos (ball acc)
      \<and> yVel (paddleOne out) = yVel (ball acc)
      \<and> energy (paddleOne out) = energy (paddleOne acc) - 1
      \<and> ySize (paddleOne out) = ySize (paddleOne acc)
      \<and> numeric (playerEnergy out) = numeric (playerEnergy acc) - 1"
  using assms
  by (simp add: gameObserver_scan_def createStandardParseState_def makePaddleState_def
      followBall_def Let_def playerPaddle_def)

theorem teleport_applied_witness:
  "numeric (playerEnergy (defaultEverythingState (9 / 10) (9 / 10))) > 0
   \<and> energy (paddleOne (defaultEverythingState (9 / 10) (9 / 10))) > 0
   \<and> (\<exists>out. gameObserver_scan 0 0 (defaultEverythingState (9 / 10) (9 / 10)) Teleport = Some out
        \<and> yPos (paddleOne out) = 300 \<and> yVel (paddleOne out) = 4
        \<and> energy (paddleOne out) = 3 \<and> ySize (paddleOne out) = 90
        \<and> numeric (playerEnergy out) = 3)"
proof -
  let ?X = "defaultEverythingState (9 / 10) (9 / 10)"
  have h1: "numeric (playerEnergy ?X) > 0" and h2: "energy (paddleOne ?X) > 0"
    by (simp_all add: defaultEverythingState_def defaultPlayerEnergyState_def startingEnergy_def)
  have v: "yPos (ball ?X) = 300" "yVel (ball ?X) = 4" "energy (paddleOne ?X) = 4"
    "ySize (paddleOne ?X) = 90" "numeric (playerEnergy ?X) = 4"
    by (simp_all add: defaultEverythingState_def defaultPlayerEnergyState_def startingEnergy_def
        defaultBallState2_def genericDefaultBall_def Math_round_def Let_def Constants_defs)
  from teleport_applied [OF h1 h2, of 0 0] h1 h2 v show ?thesis by auto
qed

end
